theory Spec2Isabelle
  imports Complex_Main "HOL-Library.Sublist"
begin

section \<open>Strings\<close>

text \<open>
  JavaScript strings are sequences of code units; the model uses \<^typ>\<open>string\<close>.
  \<^verbatim>\<open>s.includes(sub)\<close> is a case-sensitive test for a contiguous occurrence of
  \<^verbatim>\<open>sub\<close> in \<^verbatim>\<open>s\<close>, \<^verbatim>\<open>s.endsWith(suf)\<close> a test on the end of \<^verbatim>\<open>s\<close>, and
  \<^verbatim>\<open>s.replace(pat, '')\<close> with a string pattern removes the first occurrence of
  \<^verbatim>\<open>pat\<close> and nothing else.
\<close>

fun string_includes :: "string \<Rightarrow> string \<Rightarrow> bool" where
  "string_includes [] sub = (sub = [])"
| "string_includes (c # cs) sub = (prefix sub (c # cs) \<or> string_includes cs sub)"

definition endsWith :: "string \<Rightarrow> string \<Rightarrow> bool" where
  "endsWith s suf = suffix suf s"

fun replace :: "string \<Rightarrow> string \<Rightarrow> string" where
  "replace [] pat = []"
| "replace (c # cs) pat =
     (if prefix pat (c # cs) then drop (length pat) (c # cs) else c # replace cs pat)"

section \<open>Errors, units and rows\<close>

datatype error = Error string | SqliteError string | ProcessAborted

text \<open>
  One entry of the \<^verbatim>\<open>symbols\<close> array that \<^verbatim>\<open>responseSchema\<close> accepts.
\<close>

record item =
  symbolName :: string
  line :: real
  description :: string

text \<open>
  A row of the table \<^verbatim>\<open>symbols (filename, hash, metadata, embedding_id)\<close>. The table has
  no declared key, so SQLite gives every row an implicit \<^verbatim>\<open>rowid\<close>. The column
  \<^verbatim>\<open>metadata\<close> holds \<^verbatim>\<open>JSON.stringify(item)\<close>; the model keeps the item itself.
  A row of the virtual table \<^verbatim>\<open>embeddings\<close> is a pair of its \<^verbatim>\<open>rowid\<close> and the
  vector \<^verbatim>\<open>a\<close>; the type of vectors is a parameter.
\<close>

record symbols_row =
  rowid :: int
  filename :: string
  hash :: string
  metadata :: item
  embedding_id :: int

text \<open>
  The database file: a table is absent until \<^verbatim>\<open>create ... if not exists\<close> has run.
\<close>

record 'v database =
  embeddings_table :: "(int \<times> 'v) list option"
  symbols_table :: "symbols_row list option"

datatype console_line =
    Cleared nat
  | VssVersion string
  | IndexFilesIn string
  | FilesCount nat
  | SourceFilesCount nat
  | AlreadyKnown string
  | CreatingRecord string string
  | ConsoleError error
  | Progress nat nat

text \<open>
  What a run of \<^verbatim>\<open>buildIndex\<close> mutates once both tables exist: the two tables (rows in
  table order), the console, and the local variables \<^verbatim>\<open>outdated\<close> and \<^verbatim>\<open>i\<close>.
\<close>

record 'v state =
  embeddings :: "(int \<times> 'v) list"
  symbols :: "symbols_row list"
  console :: "console_line list"
  outdated :: nat
  i_counter :: int

section \<open>The world outside the program\<close>

datatype json =
    JNull
  | JBool bool
  | JNumber real
  | JString string
  | JArray "json list"
  | JObject "(string \<times> json) list"

text \<open>
  The file system, the clock, the OpenAI services and the vector extension are parameters.
  Within one run each of them answers as a function of its argument.
  \<^item> \<open>existsSync\<close>, \<open>path_join\<close>: \<^verbatim>\<open>fsSync.existsSync\<close>, \<^verbatim>\<open>path.join\<close>;
  \<^item> \<open>traverseFiles\<close>: the result of the recursive directory walk, or its failure;
  \<^item> \<open>sha1\<close>, \<open>readFile\<close>: digest and text of a file, or the failure to read it;
  \<^item> \<open>completion\<close>: \<^verbatim>\<open>JSON.parse(completion.choices[0].message.content)\<close> for the chat
    completion of a source text, or the failure of the request or of the parse;
  \<^item> \<open>embeddings_create\<close>: the embedding of a text, or the failure of the request;
  \<^item> \<open>Date_now\<close>: the clock reading taken before the update loop;
  \<^item> \<open>vss_version\<close>, \<open>vss_search\<close>: the extension's version and its nearest-neighbour
    search, returning hits as pairs of \<^verbatim>\<open>rowid\<close> and \<^verbatim>\<open>distance\<close>.
\<close>

record 'v env =
  existsSync :: "string \<Rightarrow> bool"
  path_join :: "string \<Rightarrow> string \<Rightarrow> string"
  traverseFiles :: "string \<Rightarrow> error + string list"
  sha1 :: "string \<Rightarrow> error + string"
  readFile :: "string \<Rightarrow> error + string"
  completion :: "string \<Rightarrow> error + json"
  embeddings_create :: "string \<Rightarrow> error + 'v"
  Date_now :: int
  vss_version :: string
  vss_search :: "(int \<times> 'v) list \<Rightarrow> 'v \<Rightarrow> (int \<times> real) list"

section \<open>Helpers of index.js\<close>

definition isSourceFile :: "string \<Rightarrow> bool" where
  "isSourceFile fname =
     (if string_includes fname ''test'' then False
      else if string_includes fname ''translation'' then False
      else if string_includes fname ''mock'' then False
      else if string_includes fname ''types'' then False
      else if string_includes fname ''constants'' then False
      else if string_includes fname ''stories'' then False
      else if string_includes fname ''style'' then False
      else if string_includes fname ''storybook'' then False
      else if string_includes fname ''gen.ts'' then False
      else endsWith fname ''.ts'' \<or> endsWith fname ''.tsx''
         \<or> endsWith fname ''.jsx'' \<or> endsWith fname ''.js'')"

definition generateEmbedding :: "'v env \<Rightarrow> string \<Rightarrow> error + 'v" where
  "generateEmbedding env input = embeddings_create env input"

text \<open>
  \<^verbatim>\<open>responseSchema.safeParse\<close>: an object whose key \<^verbatim>\<open>symbols\<close> is an array of objects
  with a string \<^verbatim>\<open>symbolName\<close>, a number \<^verbatim>\<open>line\<close> and a string \<^verbatim>\<open>description\<close>; other
  keys are dropped. The result stands for \<^verbatim>\<open>parseResult.data.symbols\<close>.
\<close>

definition parse_item :: "json \<Rightarrow> item option" where
  "parse_item j =
     (case j of
        JObject kvs \<Rightarrow>
          (case map_of kvs ''symbolName'' of
             Some (JString n) \<Rightarrow>
               (case map_of kvs ''line'' of
                  Some (JNumber l) \<Rightarrow>
                    (case map_of kvs ''description'' of
                       Some (JString d) \<Rightarrow>
                         Some \<lparr>symbolName = n, line = l, description = d\<rparr>
                     | _ \<Rightarrow> None)
                | _ \<Rightarrow> None)
           | _ \<Rightarrow> None)
      | _ \<Rightarrow> None)"

definition safeParse :: "json \<Rightarrow> item list option" where
  "safeParse j =
     (case j of
        JObject kvs \<Rightarrow>
          (case map_of kvs ''symbols'' of
             Some (JArray js) \<Rightarrow> those (map parse_item js)
           | _ \<Rightarrow> None)
      | _ \<Rightarrow> None)"

definition generateMetadata :: "'v env \<Rightarrow> string \<Rightarrow> error + item list" where
  "generateMetadata env input =
     (case completion env input of
        Inl e \<Rightarrow> Inl e
      | Inr parsed \<Rightarrow>
          (case safeParse parsed of
             Some data \<Rightarrow> Inr data
           | None \<Rightarrow> Inl (Error ''could not parse completion response'')))"

definition checkIfFileExistsInTheFilesystem :: "'v env \<Rightarrow> string \<Rightarrow> string \<Rightarrow> bool" where
  "checkIfFileExistsInTheFilesystem env directoryPath fname =
     existsSync env (path_join env directoryPath fname)"

text \<open>
  \<^verbatim>\<open>prepare("select * ... limit 1").pluck().get(x)\<close> yields the first column, which is
  \<^verbatim>\<open>filename\<close>, of the first matching row, and \<^verbatim>\<open>undefined\<close> when no row matches.
  \<open>truthy\<close> is JavaScript's test of that value in \<^verbatim>\<open>!!fileRecord\<close> and
  \<^verbatim>\<open>if (knownFile)\<close>: \<^verbatim>\<open>undefined\<close> and the empty string are false.
\<close>

definition pluck_get :: "symbols_row list \<Rightarrow> string option" where
  "pluck_get rows = (case rows of [] \<Rightarrow> None | r # _ \<Rightarrow> Some (filename r))"

definition truthy :: "string option \<Rightarrow> bool" where
  "truthy v = (case v of None \<Rightarrow> False | Some s \<Rightarrow> s \<noteq> [])"

definition checkIfFileHashExists :: "symbols_row list \<Rightarrow> string \<Rightarrow> bool" where
  "checkIfFileHashExists syms h = truthy (pluck_get (filter (\<lambda>r. hash r = h) syms))"

definition checkIfFileNameIsKnown :: "symbols_row list \<Rightarrow> string \<Rightarrow> string option" where
  "checkIfFileNameIsKnown syms fname = pluck_get (filter (\<lambda>r. filename r = fname) syms)"

section \<open>The SQL statements of buildIndex\<close>

text \<open>
  \<^verbatim>\<open>DELETE FROM embeddings WHERE rowid IN (SELECT rowid FROM symbols WHERE filename = ?)\<close>:
  the inner query selects the implicit \<^verbatim>\<open>rowid\<close> of the \<^verbatim>\<open>symbols\<close> rows, as written.
\<close>

definition delete_embeddings :: "string \<Rightarrow> 'v state \<Rightarrow> 'v state" where
  "delete_embeddings fname st =
     st\<lparr>embeddings :=
          filter (\<lambda>e. fst e \<notin> set (map rowid (filter (\<lambda>r. filename r = fname) (symbols st))))
            (embeddings st)\<rparr>"

text \<open>\<^verbatim>\<open>DELETE FROM symbols WHERE filename = ?\<close>\<close>

definition delete_symbols :: "string \<Rightarrow> 'v state \<Rightarrow> 'v state" where
  "delete_symbols fname st =
     st\<lparr>symbols := filter (\<lambda>r. filename r \<noteq> fname) (symbols st)\<rparr>"

text \<open>
  \<^verbatim>\<open>INSERT INTO embeddings(rowid, a) VALUES(?, ?)\<close>: the row id is the table's key, and a
  second row under a stored id is refused; the statement throws \<^verbatim>\<open>SQL logic error\<close>.
\<close>

definition insert_embedding :: "int \<Rightarrow> 'v \<Rightarrow> 'v state \<Rightarrow> error + 'v state" where
  "insert_embedding rid v st =
     (if rid \<in> set (map fst (embeddings st))
      then Inl (SqliteError ''SQL logic error'')
      else Inr (st\<lparr>embeddings := embeddings st @ [(rid, v)]\<rparr>))"

text \<open>
  \<^verbatim>\<open>INSERT INTO symbols(embedding_id, filename, hash, metadata) VALUES(?, ?, ?, ?)\<close>: the new
  row gets the implicit \<^verbatim>\<open>rowid\<close> one above the largest in the table, 1 in an empty table.
\<close>

definition next_rowid :: "symbols_row list \<Rightarrow> int" where
  "next_rowid syms = fold max (map rowid syms) 0 + 1"

definition insert_symbol :: "int \<Rightarrow> string \<Rightarrow> string \<Rightarrow> item \<Rightarrow> 'v state \<Rightarrow> 'v state" where
  "insert_symbol eid fname h it st =
     st\<lparr>symbols := symbols st @
          [\<lparr>rowid = next_rowid (symbols st), filename = fname, hash = h, metadata = it,
            embedding_id = eid\<rparr>]\<rparr>"

definition console_log :: "console_line \<Rightarrow> 'v state \<Rightarrow> 'v state" where
  "console_log l st = st\<lparr>console := console st @ [l]\<rparr>"

section \<open>buildIndex\<close>

text \<open>
  The first loop of \<^verbatim>\<open>buildIndex\<close>, over the rows read by \<^verbatim>\<open>SELECT * FROM symbols\<close>
  before the loop starts.
\<close>

fun prune :: "'v env \<Rightarrow> string \<Rightarrow> symbols_row list \<Rightarrow> 'v state \<Rightarrow> 'v state" where
  "prune env directoryPath [] st = st"
| "prune env directoryPath (knownSymbol # rest) st =
     (if checkIfFileExistsInTheFilesystem env directoryPath (filename knownSymbol)
      then prune env directoryPath rest st
      else prune env directoryPath rest
             (delete_symbols (filename knownSymbol)
               (delete_embeddings (filename knownSymbol)
                 (st\<lparr>outdated := outdated st + 1\<rparr>))))"

text \<open>
  The loop over \<^verbatim>\<open>metadata.symbols\<close>. An exception leaves the loop with the state reached
  so far; the caller's \<^verbatim>\<open>catch\<close> receives it.
\<close>

definition noise :: "string \<Rightarrow> bool" where
  "noise name =
     (if string_includes name ''export'' then True
      else if string_includes name ''import'' then True
      else if string_includes name ''interface'' then True
      else False)"

fun items_loop ::
  "'v env \<Rightarrow> string \<Rightarrow> string \<Rightarrow> item list \<Rightarrow> 'v state \<Rightarrow> error option \<times> 'v state" where
  "items_loop env relativeFile h [] st = (None, st)"
| "items_loop env relativeFile h (it # rest) st =
     (if noise (symbolName it) then items_loop env relativeFile h rest st
      else
        (case generateEmbedding env (symbolName it @ '' '' @ description it) of
           Inl e \<Rightarrow> (Some e, st)
         | Inr embedding \<Rightarrow>
             (let st1 = console_log (CreatingRecord relativeFile (symbolName it)) st;
                  st2 = st1\<lparr>i_counter := i_counter st1 + 1\<rparr>
              in case insert_embedding (i_counter st2) embedding st2 of
                   Inl e \<Rightarrow> (Some e, st2)
                 | Inr st3 \<Rightarrow>
                     items_loop env relativeFile h rest
                       (insert_symbol (i_counter st2) relativeFile h it st3))))"

text \<open>
  The body of the \<^verbatim>\<open>try\<close> block for one file: the Summarizer is called first, then the
  stored vectors of a known file are deleted, then the units are processed.
\<close>

definition try_block ::
  "'v env \<Rightarrow> string \<Rightarrow> string \<Rightarrow> string \<Rightarrow> 'v state \<Rightarrow> error option \<times> 'v state" where
  "try_block env relativeFile h code st =
     (let knownFile = checkIfFileNameIsKnown (symbols st) relativeFile
      in case generateMetadata env code of
           Inl e \<Rightarrow> (Some e, st)
         | Inr metadata_symbols \<Rightarrow>
             items_loop env relativeFile h metadata_symbols
               (if truthy knownFile then delete_embeddings relativeFile st else st))"

text \<open>
  One iteration of the loop over \<^verbatim>\<open>sourceFiles\<close>. A failure of \<^verbatim>\<open>sha1\<close> or \<^verbatim>\<open>readFile\<close>
  is outside the \<^verbatim>\<open>try\<close> and ends the run; an error inside it is printed and the loop
  goes on.
\<close>

definition file_step ::
  "'v env \<Rightarrow> string \<Rightarrow> nat \<Rightarrow> nat \<Rightarrow> string \<Rightarrow> 'v state \<Rightarrow> error option \<times> 'v state" where
  "file_step env directoryPath len progress file st =
     (case sha1 env file of
        Inl e \<Rightarrow> (Some e, st)
      | Inr h \<Rightarrow>
          (case readFile env file of
             Inl e \<Rightarrow> (Some e, st)
           | Inr code \<Rightarrow>
               (let relativeFile = replace file directoryPath
                in if checkIfFileHashExists (symbols st) h
                   then (None, console_log (AlreadyKnown relativeFile) st)
                   else
                     (case try_block env relativeFile h code st of
                        (None, st1) \<Rightarrow> (None, console_log (Progress progress len) st1)
                      | (Some e, st1) \<Rightarrow>
                          (None, console_log (Progress progress len) (console_log (ConsoleError e) st1))))))"

fun update_loop ::
  "'v env \<Rightarrow> string \<Rightarrow> nat \<Rightarrow> nat \<Rightarrow> string list \<Rightarrow> 'v state \<Rightarrow> error option \<times> 'v state" where
  "update_loop env directoryPath len progress [] st = (None, st)"
| "update_loop env directoryPath len progress (file # files) st =
     (case file_step env directoryPath len (progress + 1) file st of
        (Some e, st1) \<Rightarrow> (Some e, st1)
      | (None, st1) \<Rightarrow> update_loop env directoryPath len (progress + 1) files st1)"

definition create_table_if_not_exists :: "'a list option \<Rightarrow> 'a list" where
  "create_table_if_not_exists t = (case t of None \<Rightarrow> [] | Some rows \<Rightarrow> rows)"

definition finish ::
  "error option \<Rightarrow> 'v state \<Rightarrow> error option \<times> 'v database \<times> console_line list" where
  "finish thrown st =
     (thrown,
      \<lparr>embeddings_table = Some (embeddings st), symbols_table = Some (symbols st)\<rparr>,
      console st)"

text \<open>
  \<^verbatim>\<open>buildIndex(directoryPath)\<close> on a database file: the error thrown if any, the database
  left behind and the console output.
\<close>

definition buildIndex ::
  "'v env \<Rightarrow> string \<Rightarrow> 'v database \<Rightarrow> error option \<times> 'v database \<times> console_line list" where
  "buildIndex env directoryPath db =
     (if \<not> string_includes directoryPath ''x-pack/plugins/security_solution''
      then (Some (Error ''invalid path to security_solution plugin''), db, [])
      else
        (let version = vss_version env;
             st0 = \<lparr>embeddings = create_table_if_not_exists (embeddings_table db),
                    symbols = create_table_if_not_exists (symbols_table db),
                    console = [], outdated = 0, i_counter = 0\<rparr>;
             knownSymbols = symbols st0;
             st1 = prune env directoryPath knownSymbols st0;
             st2 = console_log (Cleared (outdated st1)) st1
         in case traverseFiles env directoryPath of
              Inl e \<Rightarrow> finish (Some e) st2
            | Inr files \<Rightarrow>
                (let sourceFiles = filter isSourceFile files;
                     st3 = console_log (SourceFilesCount (length sourceFiles))
                             (console_log (FilesCount (length files))
                               (console_log (IndexFilesIn directoryPath)
                                 (console_log (VssVersion version) st2)));
                     st4 = st3\<lparr>i_counter := Date_now env\<rparr>
                 in case update_loop env directoryPath (length sourceFiles) 0 sourceFiles st4 of
                      (thrown, st5) \<Rightarrow> finish thrown st5)))"

section \<open>runQuery\<close>

text \<open>
  A result row of the query: \<^verbatim>\<open>e.rowid\<close>, \<^verbatim>\<open>e.distance\<close>, \<^verbatim>\<open>f.filename\<close>, \<^verbatim>\<open>f.metadata\<close>.
\<close>

record scored =
  e_rowid :: int
  distance :: real
  f_filename :: string
  f_metadata :: item

text \<open>\<^verbatim>\<open>e JOIN symbols f ON f.embedding_id = e.rowid\<close>\<close>

definition join_symbols :: "(int \<times> real) list \<Rightarrow> symbols_row list \<Rightarrow> scored list" where
  "join_symbols hits syms =
     concat (map (\<lambda>e. map (\<lambda>f. \<lparr>e_rowid = fst e, distance = snd e,
                                 f_filename = filename f, f_metadata = metadata f\<rparr>)
                          (filter (\<lambda>f. embedding_id f = fst e) syms)) hits)"

text \<open>
  The inner query keeps the first 20 hits of the search (\<^verbatim>\<open>LIMIT 20\<close>, a constant of the
  statement); the outer query joins them with \<^verbatim>\<open>symbols\<close> and orders the rows by
  \<^verbatim>\<open>distance\<close>. The order of rows at equal distance is the engine's choice; the model
  keeps their join order. A missing table is an error of the statement. On an empty
  \<^verbatim>\<open>embeddings\<close> table the extension's search does not return and the process is aborted.
\<close>

definition runQuery :: "'v env \<Rightarrow> 'v database \<Rightarrow> string \<Rightarrow> error + scored list" where
  "runQuery env db query =
     (case generateEmbedding env query of
        Inl e \<Rightarrow> Inl e
      | Inr queryAsEmbedding \<Rightarrow>
          (case embeddings_table db of
             None \<Rightarrow> Inl (SqliteError ''no such table: embeddings'')
           | Some es \<Rightarrow>
               (case symbols_table db of
                  None \<Rightarrow> Inl (SqliteError ''no such table: symbols'')
                | Some fs \<Rightarrow>
                    (if es = [] then Inl ProcessAborted
                     else Inr (sort_key distance
                                 (join_symbols (take 20 (vss_search env es queryAsEmbedding))
                                    fs))))))"

section \<open>Rows written by a run\<close>

text \<open>
  \<open>new_row_of\<close> describes a \<^verbatim>\<open>symbols\<close> row written while the units of one file are
  processed; \<open>new_row_in\<close> describes a row written for one of a list of files.
\<close>

definition new_row_of :: "string \<Rightarrow> string \<Rightarrow> item list \<Rightarrow> symbols_row \<Rightarrow> bool" where
  "new_row_of fname h items r =
     (filename r = fname \<and> hash r = h \<and> metadata r \<in> set items
      \<and> \<not> noise (symbolName (metadata r)))"

definition new_row_in :: "'v env \<Rightarrow> string \<Rightarrow> string list \<Rightarrow> symbols_row \<Rightarrow> bool" where
  "new_row_in env directoryPath files r =
     (list_ex (\<lambda>file. filename r = replace file directoryPath \<and> sha1 env file = Inr (hash r))
        files
      \<and> \<not> noise (symbolName (metadata r)))"

text \<open>
  \<open>persisted_as\<close> says that a \<^verbatim>\<open>symbols\<close> row and an \<^verbatim>\<open>embeddings\<close> row are the two rows
  written for a unit of a file: the row holds the unit, the file's name and digest, and
  the number of the vector, and the vector is what the Embedder returned for the unit.
\<close>

definition persisted_as ::
  "'v env \<Rightarrow> string \<Rightarrow> string \<Rightarrow> item \<Rightarrow> symbols_row \<Rightarrow> int \<times> 'v \<Rightarrow> bool" where
  "persisted_as env fname h u r p =
     (metadata r = u \<and> filename r = fname \<and> hash r = h \<and> embedding_id r = fst p
      \<and> generateEmbedding env (symbolName u @ '' '' @ description u) = Inr (snd p))"

text \<open>
  \<open>early_failure\<close> is the error, if any, that ends the \<^verbatim>\<open>try\<close> block of a file before its
  first \<^verbatim>\<open>INSERT\<close>: the error of \<^verbatim>\<open>generateMetadata\<close> (a failed request or a response that
  does not parse or validate), or else the Embedder's error on the first unit that passes
  the filter.
\<close>

definition early_failure :: "'v env \<Rightarrow> string \<Rightarrow> error option" where
  "early_failure env code =
     (case generateMetadata env code of
        Inl e \<Rightarrow> Some e
      | Inr units \<Rightarrow>
          (case filter (\<lambda>u. \<not> noise (symbolName u)) units of
             [] \<Rightarrow> None
           | u # rest \<Rightarrow>
               (case generateEmbedding env (symbolName u @ '' '' @ description u) of
                  Inl e \<Rightarrow> Some e
                | Inr v \<Rightarrow> None)))"

section \<open>Concrete worlds\<close>

text \<open>
  Small file systems, services and databases on which the definitions above are run.
  A world lists its files with digest and text and the completion for each text;
  \<open>path_join\<close> is concatenation, which is what \<^verbatim>\<open>path.join\<close> returns for a root without
  trailing slash and a stored name starting with a slash. \<open>nearest\<close> is an exact
  nearest-neighbour search on one-dimensional vectors.
\<close>

definition root_dir :: string where
  "root_dir = ''/kibana/x-pack/plugins/security_solution''"

definition in_root :: "string \<Rightarrow> string" where
  "in_root rel = root_dir @ rel"

definition empty_db :: "real database" where
  "empty_db = \<lparr>embeddings_table = None, symbols_table = None\<rparr>"

definition unit :: "string \<Rightarrow> real \<Rightarrow> string \<Rightarrow> item" where
  "unit n l d = \<lparr>symbolName = n, line = l, description = d\<rparr>"

definition unit_json :: "item \<Rightarrow> json" where
  "unit_json u =
     JObject [(''symbolName'', JString (symbolName u)), (''line'', JNumber (line u)),
              (''description'', JString (description u))]"

definition response :: "item list \<Rightarrow> json" where
  "response units = JObject [(''symbols'', JArray (map unit_json units))]"

definition nearest :: "(int \<times> real) list \<Rightarrow> real \<Rightarrow> (int \<times> real) list" where
  "nearest es q = sort_key snd (map (\<lambda>e. (fst e, \<bar>snd e - q\<bar>)) es)"

definition embed_ok :: "string \<Rightarrow> error + real" where
  "embed_ok text = Inr (real (length text))"

definition embed_failing_on :: "string \<Rightarrow> string \<Rightarrow> error + real" where
  "embed_failing_on bad text =
     (if prefix bad text then Inl (Error ''embeddings request failed'') else embed_ok text)"

definition world ::
  "(string \<times> string \<times> string) list \<Rightarrow> (string \<times> json) list \<Rightarrow> (string \<Rightarrow> error + real)
   \<Rightarrow> int \<Rightarrow> real env" where
  "world files completions embedder now =
     \<lparr>existsSync = (\<lambda>p. p \<in> set (map fst files)),
      path_join = (\<lambda>d f. d @ f),
      traverseFiles = (\<lambda>d. Inr (filter (prefix d) (map fst files))),
      sha1 = (\<lambda>f. case map_of files f of
                     Some hc \<Rightarrow> Inr (fst hc) | None \<Rightarrow> Inl (Error ''ENOENT'')),
      readFile = (\<lambda>f. case map_of files f of
                     Some hc \<Rightarrow> Inr (snd hc) | None \<Rightarrow> Inl (Error ''ENOENT'')),
      completion = (\<lambda>c. case map_of completions c of
                     Some j \<Rightarrow> Inr j | None \<Rightarrow> Inl (Error ''completion request failed'')),
      embeddings_create = embedder,
      Date_now = now,
      vss_version = ''v0.1.2'',
      vss_search = nearest\<rparr>"

definition start_state :: "int \<Rightarrow> real state" where
  "start_state now =
     \<lparr>embeddings = [], symbols = [], console = [], outdated = 0, i_counter = now\<rparr>"

text \<open>
  The two stores are in lockstep when both tables exist, every \<^verbatim>\<open>symbols\<close> row has exactly
  one \<^verbatim>\<open>embeddings\<close> row under its \<^verbatim>\<open>embedding_id\<close>, and every \<^verbatim>\<open>embeddings\<close> row is the
  \<^verbatim>\<open>embedding_id\<close> of some \<^verbatim>\<open>symbols\<close> row.
\<close>

definition lockstep :: "'v database \<Rightarrow> bool" where
  "lockstep db =
     (case embeddings_table db of
        None \<Rightarrow> False
      | Some es \<Rightarrow>
          (case symbols_table db of
             None \<Rightarrow> False
           | Some fs \<Rightarrow>
               list_all (\<lambda>f. length (filter (\<lambda>e. fst e = embedding_id f) es) = 1) fs
               \<and> list_all (\<lambda>e. list_ex (\<lambda>f. embedding_id f = fst e) fs) es))"

text \<open>A tree with one file, and the same tree after the file was removed.\<close>

definition world_a1 :: "real env" where
  "world_a1 = world [(in_root ''/a.ts'', ''H1'', ''code of a'')]
                    [(''code of a'', response [unit ''useA'' 3 ''hook A''])]
                    embed_ok 1700000000000"

definition world_a2 :: "real env" where
  "world_a2 = world [] [] embed_ok 1700000600000"

text \<open>A file indexed under \<open>H1\<close> with two units, whose text then changed to \<open>H2\<close>.\<close>

definition db_b :: "real database" where
  "db_b =
     \<lparr>embeddings_table = Some [(1700000000001, 14), (1700000000002, 17)],
      symbols_table = Some
        [\<lparr>rowid = 1, filename = ''/b.ts'', hash = ''H1'',
          metadata = unit ''loadB'' 2 ''loads B'', embedding_id = 1700000000001\<rparr>,
         \<lparr>rowid = 2, filename = ''/b.ts'', hash = ''H1'',
          metadata = unit ''saveB'' 9 ''saves B'', embedding_id = 1700000000002\<rparr>]\<rparr>"

definition world_b :: "real env" where
  "world_b = world [(in_root ''/b.ts'', ''H2'', ''new code of b'')]
                   [(''new code of b'', response [unit ''storeB'' 4 ''stores B''])]
                   embed_ok 1700000600000"

text \<open>An index of two files, one of which is no longer in the tree.\<close>

definition db_c :: "real database" where
  "db_c =
     \<lparr>embeddings_table =
        Some [(1700000000001, 10), (1700000000002, 20), (1700000000003, 30)],
      symbols_table = Some
        [\<lparr>rowid = 1, filename = ''/gone.ts'', hash = ''G1'',
          metadata = unit ''g1'' 1 ''first of gone'', embedding_id = 1700000000001\<rparr>,
         \<lparr>rowid = 2, filename = ''/gone.ts'', hash = ''G1'',
          metadata = unit ''g2'' 8 ''second of gone'', embedding_id = 1700000000002\<rparr>,
         \<lparr>rowid = 3, filename = ''/kept.ts'', hash = ''K1'',
          metadata = unit ''k1'' 1 ''kept'', embedding_id = 1700000000003\<rparr>]\<rparr>"

definition world_c :: "real env" where
  "world_c = world [(in_root ''/kept.ts'', ''K1'', ''code of kept'')] [] embed_ok 1700000600000"

text \<open>Two files; the Embedder fails on the second of the three units of the first.\<close>

definition world_d :: "real env" where
  "world_d =
     world [(in_root ''/d.ts'', ''HD'', ''code of d''), (in_root ''/e.ts'', ''HE'', ''code of e'')]
           [(''code of d'', response [unit ''alpha'' 1 ''first'', unit ''beta'' 5 ''second'',
                                      unit ''gamma'' 9 ''third'']),
            (''code of e'', response [unit ''delta'' 1 ''other file''])]
           (embed_failing_on ''beta'') 1700000000000"

text \<open>One file; the Embedder fails on the second of its two units.\<close>

definition world_f :: "real env" where
  "world_f = world [(in_root ''/f.ts'', ''HF'', ''code of f'')]
                   [(''code of f'', response [unit ''first'' 1 ''one'', unit ''second'' 5 ''two''])]
                   (embed_failing_on ''second'') 1700000000000"

text \<open>Two files; the completion for the second is an object without a \<^verbatim>\<open>symbols\<close> array.\<close>

definition world_m :: "real env" where
  "world_m = world [(in_root ''/n.ts'', ''HN'', ''code of n''),
                    (in_root ''/m.ts'', ''HM'', ''code of m'')]
                   [(''code of n'', response [unit ''useN'' 2 ''hook N'']),
                    (''code of m'', JObject [(''symbols'', JString ''none'')])]
                   embed_ok 1700000000000"

text \<open>
  Two files under one digest; the completion request fails for the text of the first.
\<close>

definition world_s :: "real env" where
  "world_s = world [(in_root ''/s1.ts'', ''HS'', ''text one''),
                    (in_root ''/s2.ts'', ''HS'', ''text two'')]
                   [(''text two'', response [unit ''two'' 1 ''second copy''])]
                   embed_ok 1700000000000"

text \<open>A file that is a copy of a file indexed under another name.\<close>

definition state_h :: "real state" where
  "state_h =
     \<lparr>embeddings = [(1700000000001, 5)],
      symbols = [\<lparr>rowid = 1, filename = ''/original.ts'', hash = ''HX'',
                  metadata = unit ''orig'' 1 ''original'', embedding_id = 1700000000001\<rparr>],
      console = [], outdated = 0, i_counter = 1700000600000\<rparr>"

definition world_h :: "real env" where
  "world_h = world [(in_root ''/original.ts'', ''HX'', ''same text''),
                    (in_root ''/copy.ts'', ''HX'', ''same text'')]
                   [] embed_ok 1700000600000"

text \<open>Three stored vectors at distances 0.9, 0.1 and 0.5 from the query vector 0.\<close>

definition db_q :: "real database" where
  "db_q =
     \<lparr>embeddings_table = Some [(11, 0.9), (12, 0.1), (13, 0.5)],
      symbols_table = Some
        [\<lparr>rowid = 1, filename = ''/q.ts'', hash = ''HQ'',
          metadata = unit ''far'' 1 ''far'', embedding_id = 11\<rparr>,
         \<lparr>rowid = 2, filename = ''/q.ts'', hash = ''HQ'',
          metadata = unit ''near'' 2 ''near'', embedding_id = 12\<rparr>,
         \<lparr>rowid = 3, filename = ''/q.ts'', hash = ''HQ'',
          metadata = unit ''mid'' 3 ''mid'', embedding_id = 13\<rparr>]\<rparr>"

definition world_q :: "real env" where
  "world_q = world [] [] (\<lambda>text. Inr 0) 1700000000000"

text \<open>One file with a unit named \<^verbatim>\<open>MyInterfaceImpl\<close> and a unit named \<^verbatim>\<open>exportItems\<close>.\<close>

definition world_g :: "real env" where
  "world_g = world [(in_root ''/g.ts'', ''HG'', ''code of g'')]
                   [(''code of g'', response [unit ''MyInterfaceImpl'' 7 ''implements it'',
                                              unit ''exportItems'' 9 ''exports''])]
                   embed_ok 1700000000000"

section \<open>Properties\<close>

subsection \<open>Strings and the noise filter\<close>

lemma string_includes_sublist: "string_includes s sub \<longleftrightarrow> sublist sub s"
  by (induction s) (auto simp: sublist_Cons_right)

lemma noise_sublist:
  "noise name \<longleftrightarrow>
     sublist ''export'' name \<or> sublist ''import'' name \<or> sublist ''interface'' name"
  by (simp add: noise_def string_includes_sublist)

text \<open>
  Units that the filter drops can be removed from the Summarizer's list beforehand without
  changing anything the loop does.
\<close>

lemma items_loop_filter:
  assumes "\<And>u. u \<in> set items \<Longrightarrow> \<not> P u \<Longrightarrow> noise (symbolName u)"
  shows "items_loop env relativeFile h (filter P items) st
           = items_loop env relativeFile h items st"
  using assms
proof (induction items arbitrary: st)
  case Nil
  show ?case by simp
next
  case (Cons u rest)
  have rest: "\<And>st'. items_loop env relativeFile h (filter P rest) st'
                      = items_loop env relativeFile h rest st'"
    using Cons by simp
  show ?case
  proof (cases "P u")
    case True
    then show ?thesis by (simp add: rest Let_def split: sum.splits)
  next
    case False
    then have "noise (symbolName u)" using Cons.prems by simp
    with False show ?thesis by (simp add: rest)
  qed
qed

subsection \<open>The path guard\<close>

text \<open>
  C9: for every root directory path that does not contain
  \<^verbatim>\<open>x-pack/plugins/security_solution\<close>, \<^verbatim>\<open>buildIndex\<close> throws at once: the database is
  returned as it was (no table created, no row deleted or inserted) and nothing is
  printed, so no other source tree can be indexed.
\<close>

theorem buildIndex_rejects_other_roots:
  "\<not> string_includes directoryPath ''x-pack/plugins/security_solution'' \<Longrightarrow>
   buildIndex env directoryPath db =
     (Some (Error ''invalid path to security_solution plugin''), db, [])"
  by (simp add: buildIndex_def)

theorem buildIndex_rejects_other_roots_witness:
  "buildIndex world_a1 ''/home/dev/my_project'' empty_db =
     (Some (Error ''invalid path to security_solution plugin''), empty_db, [])"
proof -
  have "\<not> string_includes ''/home/dev/my_project'' ''x-pack/plugins/security_solution''"
    by code_simp
  then show ?thesis by (rule buildIndex_rejects_other_roots)
qed

subsection \<open>The state after simple steps\<close>

lemma symbols_delete_embeddings [simp]:
  "symbols (delete_embeddings fname st) = symbols st"
  by (simp add: delete_embeddings_def)

lemma symbols_console_log [simp]: "symbols (console_log l st) = symbols st"
  by (simp add: console_log_def)

lemma embeddings_console_log [simp]: "embeddings (console_log l st) = embeddings st"
  by (simp add: console_log_def)

lemma console_console_log [simp]: "console (console_log l st) = console st @ [l]"
  by (simp add: console_log_def)

lemma insert_embedding_symbols:
  "insert_embedding rid v st = Inr st1 \<Longrightarrow> symbols st1 = symbols st"
  by (auto simp: insert_embedding_def split: if_splits)

lemma symbols_insert_symbol:
  "symbols (insert_symbol eid fname h it st) =
     symbols st @ [\<lparr>rowid = next_rowid (symbols st), filename = fname, hash = h,
                    metadata = it, embedding_id = eid\<rparr>]"
  by (simp add: insert_symbol_def)

text \<open>
  With non-empty stored file names, \<^verbatim>\<open>checkIfFileHashExists\<close> holds exactly when some row
  carries the digest, whatever file the row belongs to.
\<close>

lemma checkIfFileHashExists_iff:
  assumes "\<forall>r\<in>set syms. filename r \<noteq> []"
  shows "checkIfFileHashExists syms h \<longleftrightarrow> (\<exists>r\<in>set syms. hash r = h)"
proof (cases "filter (\<lambda>r. hash r = h) syms")
  case Nil
  then have "\<not> (\<exists>r\<in>set syms. hash r = h)" by (simp add: filter_empty_conv)
  with Nil show ?thesis by (simp add: checkIfFileHashExists_def pluck_get_def truthy_def)
next
  case (Cons r rs)
  then have "r \<in> set (filter (\<lambda>r. hash r = h) syms)" by simp
  then have "r \<in> set syms" "hash r = h" by simp_all
  with Cons assms show ?thesis
    by (auto simp: checkIfFileHashExists_def pluck_get_def truthy_def)
qed

subsection \<open>The loop over the units of a file\<close>

lemma items_loop_append_ok:
  "items_loop env relativeFile h pre st = (None, st1) \<Longrightarrow>
   items_loop env relativeFile h (pre @ post) st = items_loop env relativeFile h post st1"
proof (induction pre arbitrary: st)
  case Nil
  then show ?case by simp
next
  case (Cons u pre)
  then show ?case
    by (auto simp: Let_def split: if_splits sum.splits)
qed

lemma items_loop_stops_at_failure:
  assumes "items_loop env relativeFile h pre st = (None, st1)"
    and "\<not> noise (symbolName u)"
    and "generateEmbedding env (symbolName u @ '' '' @ description u) = Inl e"
  shows "items_loop env relativeFile h (pre @ u # post) st = (Some e, st1)"
  using assms by (simp add: items_loop_append_ok)

text \<open>
  The loop only appends to \<^verbatim>\<open>symbols\<close>, and every row it appends belongs to the file, carries
  the file's digest and describes a unit that passed the filter.
\<close>

lemma items_loop_symbols:
  "\<exists>new. symbols (snd (items_loop env relativeFile h items st)) = symbols st @ new
         \<and> list_all (new_row_of relativeFile h items) new"
proof (induction items arbitrary: st)
  case Nil
  show ?case by simp
next
  case (Cons u rest)
  have weaken: "list_all (new_row_of relativeFile h (u # rest)) new"
    if "list_all (new_row_of relativeFile h rest) new" for new
    using that by (simp add: list_all_iff new_row_of_def)
  show ?case
  proof (cases "noise (symbolName u)")
    case True
    with Cons [of st] weaken show ?thesis by auto
  next
    case False
    show ?thesis
    proof (cases "generateEmbedding env (symbolName u @ '' '' @ description u)")
      case (Inl e)
      with False show ?thesis by simp
    next
      case (Inr v)
      let ?st2 = "(console_log (CreatingRecord relativeFile (symbolName u)) st)
                    \<lparr>i_counter := i_counter st + 1\<rparr>"
      show ?thesis
      proof (cases "insert_embedding (i_counter st + 1) v ?st2")
        case (Inl e)
        with False Inr show ?thesis by (simp add: Let_def console_log_def)
      next
        case ins: (Inr st3)
        let ?row = "\<lparr>rowid = next_rowid (symbols st), filename = relativeFile, hash = h,
                       metadata = u, embedding_id = i_counter st + 1\<rparr>"
        let ?st4 = "insert_symbol (i_counter st + 1) relativeFile h u st3"
        have st3: "symbols st3 = symbols st"
          using insert_embedding_symbols [OF ins] by (simp add: console_log_def)
        obtain new where new: "symbols (snd (items_loop env relativeFile h rest ?st4))
                                 = symbols ?st4 @ new"
          and rows: "list_all (new_row_of relativeFile h rest) new"
          using Cons [of ?st4] by blast
        have run: "items_loop env relativeFile h (u # rest) st
                     = items_loop env relativeFile h rest ?st4"
          using False Inr ins by (simp add: Let_def console_log_def)
        have "symbols (snd (items_loop env relativeFile h (u # rest) st))
                = symbols st @ (?row # new)"
          unfolding run new symbols_insert_symbol st3 by simp
        moreover have "list_all (new_row_of relativeFile h (u # rest)) (?row # new)"
          using weaken [OF rows] False by (simp add: new_row_of_def)
        ultimately show ?thesis by blast
      qed
    qed
  qed
qed

text \<open>
  When the loop ends without an exception, it has written, for every unit that passed the
  filter and in their order, one \<^verbatim>\<open>symbols\<close> row and one vector, each vector under a
  number of its own that was not in the table.
\<close>

lemma insert_embedding_Inr:
  "insert_embedding rid v st = Inr st1 \<Longrightarrow>
     rid \<notin> set (map fst (embeddings st)) \<and> st1 = st\<lparr>embeddings := embeddings st @ [(rid, v)]\<rparr>"
  by (auto simp: insert_embedding_def split: if_splits)

lemma items_loop_persists:
  assumes "items_loop env relativeFile h items st = (None, st1)"
  shows "\<exists>rows vecs. symbols st1 = symbols st @ rows
           \<and> embeddings st1 = embeddings st @ vecs
           \<and> length rows = length vecs
           \<and> list_all2 (\<lambda>u rp. persisted_as env relativeFile h u (fst rp) (snd rp))
                (filter (\<lambda>u. \<not> noise (symbolName u)) items) (zip rows vecs)
           \<and> distinct (map fst vecs)
           \<and> set (map fst vecs) \<inter> set (map fst (embeddings st)) = {}"
  using assms
proof (induction items arbitrary: st)
  case Nil
  then show ?case by simp
next
  case (Cons u rest)
  show ?case
  proof (cases "noise (symbolName u)")
    case True
    with Cons.prems have "items_loop env relativeFile h rest st = (None, st1)" by simp
    from Cons.IH [OF this] True show ?thesis by simp
  next
    case False
    from False Cons.prems obtain v where v: "generateEmbedding env (symbolName u @ '' '' @ description u) = Inr v"
      by (cases "generateEmbedding env (symbolName u @ '' '' @ description u)") auto
    let ?st2 = "(console_log (CreatingRecord relativeFile (symbolName u)) st)
                  \<lparr>i_counter := i_counter st + 1\<rparr>"
    from False v Cons.prems obtain st3 where ins: "insert_embedding (i_counter st + 1) v ?st2 = Inr st3"
      by (cases "insert_embedding (i_counter st + 1) v ?st2")
         (auto simp: Let_def console_log_def)
    let ?row = "\<lparr>rowid = next_rowid (symbols st), filename = relativeFile, hash = h,
                   metadata = u, embedding_id = i_counter st + 1\<rparr>"
    let ?st4 = "insert_symbol (i_counter st + 1) relativeFile h u st3"
    have fresh: "i_counter st + 1 \<notin> set (map fst (embeddings st))"
      and st3: "st3 = ?st2\<lparr>embeddings := embeddings st @ [(i_counter st + 1, v)]\<rparr>"
      using insert_embedding_Inr [OF ins] by (simp_all add: console_log_def)
    have sym4: "symbols ?st4 = symbols st @ [?row]"
      by (simp add: st3 insert_symbol_def console_log_def)
    have emb4: "embeddings ?st4 = embeddings st @ [(i_counter st + 1, v)]"
      by (simp add: st3 insert_symbol_def console_log_def)
    have "items_loop env relativeFile h rest ?st4 = (None, st1)"
      using False v ins Cons.prems by (simp add: Let_def console_log_def)
    from Cons.IH [OF this] obtain rows vecs where
      rows: "symbols st1 = symbols ?st4 @ rows" and vecs: "embeddings st1 = embeddings ?st4 @ vecs"
      and len: "length rows = length vecs"
      and all: "list_all2 (\<lambda>u rp. persisted_as env relativeFile h u (fst rp) (snd rp))
                  (filter (\<lambda>u. \<not> noise (symbolName u)) rest) (zip rows vecs)"
      and dist: "distinct (map fst vecs)"
      and disj: "set (map fst vecs) \<inter> set (map fst (embeddings ?st4)) = {}"
      by blast
    have "symbols st1 = symbols st @ (?row # rows)" by (simp add: rows sym4)
    moreover have "embeddings st1 = embeddings st @ ((i_counter st + 1, v) # vecs)"
      by (simp add: vecs emb4)
    moreover have "length (?row # rows) = length ((i_counter st + 1, v) # vecs)"
      by (simp add: len)
    moreover have "list_all2 (\<lambda>u rp. persisted_as env relativeFile h u (fst rp) (snd rp))
                  (filter (\<lambda>u. \<not> noise (symbolName u)) (u # rest))
                  (zip (?row # rows) ((i_counter st + 1, v) # vecs))"
      using False all v by (simp add: persisted_as_def)
    moreover have "distinct (map fst ((i_counter st + 1, v) # vecs))"
      using dist disj by (auto simp: emb4)
    moreover have "set (map fst ((i_counter st + 1, v) # vecs)) \<inter> set (map fst (embeddings st)) = {}"
      using disj fresh by (auto simp: emb4)
    ultimately show ?thesis by blast
  qed
qed

subsection \<open>The update pass never removes a row of symbols\<close>

lemma try_block_symbols:
  "\<exists>new. symbols (snd (try_block env relativeFile h code st)) = symbols st @ new
         \<and> list_all (\<lambda>r. filename r = relativeFile \<and> hash r = h
                            \<and> \<not> noise (symbolName (metadata r))) new"
proof (cases "generateMetadata env code")
  case (Inl e)
  then show ?thesis by (simp add: try_block_def)
next
  case (Inr units)
  let ?st0 = "if truthy (checkIfFileNameIsKnown (symbols st) relativeFile)
              then delete_embeddings relativeFile st else st"
  obtain new where "symbols (snd (items_loop env relativeFile h units ?st0)) = symbols ?st0 @ new"
    and "list_all (new_row_of relativeFile h units) new"
    using items_loop_symbols [of env relativeFile h units ?st0] by blast
  then have "symbols (snd (try_block env relativeFile h code st)) = symbols st @ new"
    and "list_all (\<lambda>r. filename r = relativeFile \<and> hash r = h
                            \<and> \<not> noise (symbolName (metadata r))) new"
    using Inr by (simp_all add: try_block_def list_all_iff new_row_of_def)
  then show ?thesis by blast
qed

lemma file_step_symbols:
  "\<exists>new. symbols (snd (file_step env directoryPath len progress file st)) = symbols st @ new
         \<and> list_all (new_row_in env directoryPath [file]) new"
proof (cases "sha1 env file")
  case (Inl e)
  then show ?thesis by (simp add: file_step_def)
next
  case h: (Inr h)
  show ?thesis
  proof (cases "readFile env file")
    case (Inl e)
    with h show ?thesis by (simp add: file_step_def)
  next
    case code: (Inr code)
    show ?thesis
    proof (cases "checkIfFileHashExists (symbols st) h")
      case True
      with h code show ?thesis by (simp add: file_step_def)
    next
      case False
      obtain new where new: "symbols (snd (try_block env (replace file directoryPath) h code st))
                          = symbols st @ new"
        and rows: "list_all (\<lambda>r. filename r = replace file directoryPath \<and> hash r = h
                            \<and> \<not> noise (symbolName (metadata r))) new"
        using try_block_symbols by blast
      have "symbols (snd (file_step env directoryPath len progress file st)) = symbols st @ new"
        using h code False new
        by (cases "try_block env (replace file directoryPath) h code st")
          (auto simp: file_step_def split: option.splits)
      moreover have "list_all (new_row_in env directoryPath [file]) new"
        using rows h by (simp add: list_all_iff new_row_in_def)
      ultimately show ?thesis by blast
    qed
  qed
qed

lemma new_row_in_mono:
  "set files \<subseteq> set files' \<Longrightarrow> new_row_in env directoryPath files r
     \<Longrightarrow> new_row_in env directoryPath files' r"
  by (auto simp: new_row_in_def list_ex_iff)

lemma update_loop_symbols:
  "\<exists>new. symbols (snd (update_loop env directoryPath len progress files st)) = symbols st @ new
         \<and> list_all (new_row_in env directoryPath files) new"
proof (induction files arbitrary: st progress)
  case Nil
  show ?case by simp
next
  case (Cons f files)
  obtain thrown st1 where step: "file_step env directoryPath len (progress + 1) f st = (thrown, st1)"
    by (cases "file_step env directoryPath len (progress + 1) f st")
  obtain new1 where new1: "symbols st1 = symbols st @ new1"
    and rows1: "list_all (new_row_in env directoryPath [f]) new1"
    using file_step_symbols [of env directoryPath len "progress + 1" f st] step by auto
  have rows1': "list_all (new_row_in env directoryPath (f # files)) new1"
    using rows1 new_row_in_mono [of "[f]" "f # files"] by (auto simp: list_all_iff)
  show ?case
  proof (cases thrown)
    case (Some e)
    with step new1 rows1' show ?thesis by auto
  next
    case None
    obtain new2 where new2: "symbols (snd (update_loop env directoryPath len (progress + 1) files st1))
                               = symbols st1 @ new2"
      and rows2: "list_all (new_row_in env directoryPath files) new2"
      using Cons by blast
    have rows2': "list_all (new_row_in env directoryPath (f # files)) new2"
      using rows2 new_row_in_mono [of files "f # files"] by (auto simp: list_all_iff)
    have "symbols (snd (update_loop env directoryPath len progress (f # files) st))
            = symbols st @ (new1 @ new2)"
      using step None new1 new2 by simp
    moreover have "list_all (new_row_in env directoryPath (f # files)) (new1 @ new2)"
      using rows1' rows2' by simp
    ultimately show ?thesis by blast
  qed
qed

subsection \<open>The pruning pass\<close>

text \<open>
  The pruning pass removes from \<^verbatim>\<open>symbols\<close> exactly the rows of files that are no longer
  in the tree.
\<close>

lemma prune_symbols:
  "symbols (prune env directoryPath known st) =
     filter (\<lambda>r. list_all (\<lambda>k. filename k \<noteq> filename r
                    \<or> checkIfFileExistsInTheFilesystem env directoryPath (filename k)) known)
       (symbols st)"
proof (induction known arbitrary: st)
  case Nil
  show ?case by simp
next
  case (Cons k known)
  show ?case
  proof (cases "checkIfFileExistsInTheFilesystem env directoryPath (filename k)")
    case True
    then show ?thesis by (auto simp: Cons intro!: filter_cong)
  next
    case False
    have "symbols (prune env directoryPath (k # known) st) =
            filter (\<lambda>r. list_all (\<lambda>k. filename k \<noteq> filename r
                    \<or> checkIfFileExistsInTheFilesystem env directoryPath (filename k)) known)
              (filter (\<lambda>r. filename r \<noteq> filename k) (symbols st))"
      using False by (simp add: Cons delete_symbols_def delete_embeddings_def)
    also have "\<dots> = filter (\<lambda>r. list_all (\<lambda>k. filename k \<noteq> filename r
                    \<or> checkIfFileExistsInTheFilesystem env directoryPath (filename k)) (k # known))
              (symbols st)"
      using False unfolding filter_filter by (intro filter_cong) auto
    finally show ?thesis .
  qed
qed

lemma prune_known_symbols:
  "symbols (prune env directoryPath (symbols st) st) =
     filter (\<lambda>r. checkIfFileExistsInTheFilesystem env directoryPath (filename r)) (symbols st)"
  unfolding prune_symbols by (rule filter_cong) (auto simp: list_all_iff)

text \<open>
  The vectors are selected by the \<^verbatim>\<open>rowid\<close> of the \<^verbatim>\<open>symbols\<close> rows. When no vector is stored
  under a number that is also the \<^verbatim>\<open>rowid\<close> of a \<^verbatim>\<open>symbols\<close> row, the pruning pass deletes
  no vector at all.
\<close>

lemma prune_keeps_vectors:
  "set (map fst (embeddings st)) \<inter> set (map rowid (symbols st)) = {} \<Longrightarrow>
   embeddings (prune env directoryPath known st) = embeddings st"
proof (induction known arbitrary: st)
  case Nil
  show ?case by simp
next
  case (Cons k known)
  let ?st1 = "delete_symbols (filename k) (delete_embeddings (filename k)
                (st\<lparr>outdated := outdated st + 1\<rparr>))"
  have same: "embeddings ?st1 = embeddings st"
    using Cons.prems by (auto simp: delete_symbols_def delete_embeddings_def filter_id_conv)
  have "set (symbols ?st1) \<subseteq> set (symbols st)"
    by (auto simp: delete_symbols_def delete_embeddings_def)
  then have "set (map rowid (symbols ?st1)) \<subseteq> set (map rowid (symbols st))"
    by auto
  with Cons.prems
  have "set (map fst (embeddings ?st1)) \<inter> set (map rowid (symbols ?st1)) = {}"
    unfolding same by blast
  then have "embeddings (prune env directoryPath known ?st1) = embeddings ?st1"
    by (rule Cons.IH)
  with same Cons.prems show ?case by (simp add: Cons.IH)
qed

subsection \<open>The join of the query\<close>

lemma length_filter_distinct_key:
  "distinct (map f xs) \<Longrightarrow> length (filter (\<lambda>x. f x = k) xs) \<le> 1"
  by (induction xs) (auto simp: filter_empty_conv image_iff)

lemma length_join_symbols:
  assumes "distinct (map embedding_id syms)"
  shows "length (join_symbols hits syms) \<le> length hits"
proof (induction hits)
  case Nil
  show ?case by (simp add: join_symbols_def)
next
  case (Cons e hits)
  have "length (filter (\<lambda>f. embedding_id f = fst e) syms) \<le> 1"
    using assms by (rule length_filter_distinct_key)
  with Cons show ?case by (simp add: join_symbols_def)
qed

subsection \<open>A whole run\<close>

text \<open>
  Once the path guard has passed, the table \<^verbatim>\<open>symbols\<close> after a run consists of the rows it
  had of files still in the tree, in their order, followed by rows written by the update
  pass, each for a source file of the traversal, under that file's digest, for a unit that
  passed the filter. In particular the update pass removes no row, whatever its digest.
\<close>

lemma symbols_table_finish [simp]:
  "symbols_table (fst (snd (finish thrown st))) = Some (symbols st)"
  by (simp add: finish_def)

lemma embeddings_table_finish [simp]:
  "embeddings_table (fst (snd (finish thrown st))) = Some (embeddings st)"
  by (simp add: finish_def)

lemma buildIndex_symbols:
  assumes "string_includes directoryPath ''x-pack/plugins/security_solution''"
  shows "\<exists>new. symbols_table (fst (snd (buildIndex env directoryPath db))) =
               Some (filter (\<lambda>r. checkIfFileExistsInTheFilesystem env directoryPath (filename r))
                       (create_table_if_not_exists (symbols_table db)) @ new)
           \<and> list_all (new_row_in env directoryPath
                 (case traverseFiles env directoryPath of
                    Inl e \<Rightarrow> [] | Inr files \<Rightarrow> filter isSourceFile files)) new"
proof -
  let ?st0 = "\<lparr>embeddings = create_table_if_not_exists (embeddings_table db),
               symbols = create_table_if_not_exists (symbols_table db),
               console = [], outdated = 0, i_counter = 0\<rparr>"
  let ?st1 = "prune env directoryPath (symbols ?st0) ?st0"
  let ?kept = "filter (\<lambda>r. checkIfFileExistsInTheFilesystem env directoryPath (filename r))
                 (create_table_if_not_exists (symbols_table db))"
  have kept: "symbols ?st1 = ?kept"
    using prune_known_symbols [of env directoryPath ?st0] by simp
  show ?thesis
  proof (cases "traverseFiles env directoryPath")
    case (Inl e)
    then have "symbols_table (fst (snd (buildIndex env directoryPath db))) = Some (?kept @ [])"
      using assms kept by (simp add: buildIndex_def Let_def)
    with Inl show ?thesis by (intro exI [of _ "[]"]) simp
  next
    case (Inr files)
    let ?src = "filter isSourceFile files"
    let ?st4 = "(console_log (SourceFilesCount (length ?src))
                  (console_log (FilesCount (length files))
                    (console_log (IndexFilesIn directoryPath)
                      (console_log (VssVersion (vss_version env))
                        (console_log (Cleared (outdated ?st1)) ?st1)))))
                \<lparr>i_counter := Date_now env\<rparr>"
    obtain thrown st5 where run: "update_loop env directoryPath (length ?src) 0 ?src ?st4
                                    = (thrown, st5)"
      by (cases "update_loop env directoryPath (length ?src) 0 ?src ?st4")
    obtain new where new: "symbols st5 = symbols ?st4 @ new"
      and rows: "list_all (new_row_in env directoryPath ?src) new"
      using update_loop_symbols [of env directoryPath "length ?src" 0 ?src ?st4] run by auto
    have "symbols ?st4 = ?kept" using kept by simp
    with new have st5: "symbols st5 = ?kept @ new" by simp
    have "buildIndex env directoryPath db = finish thrown st5"
      using assms Inr run by (simp add: buildIndex_def Let_def)
    then have "symbols_table (fst (snd (buildIndex env directoryPath db))) = Some (?kept @ new)"
      using st5 by simp
    with rows Inr show ?thesis by (intro exI [of _ new]) simp
  qed
qed

lemma buildIndex_filenames_nonempty:
  assumes "string_includes directoryPath ''x-pack/plugins/security_solution''"
    and "\<forall>r\<in>set (create_table_if_not_exists (symbols_table db)). filename r \<noteq> []"
    and "\<And>files f. traverseFiles env directoryPath = Inr files \<Longrightarrow> f \<in> set files
           \<Longrightarrow> isSourceFile f \<Longrightarrow> replace f directoryPath \<noteq> []"
    and "symbols_table (fst (snd (buildIndex env directoryPath db))) = Some fs"
  shows "\<forall>r\<in>set fs. filename r \<noteq> []"
proof -
  obtain new where fs: "fs = filter (\<lambda>r. checkIfFileExistsInTheFilesystem env directoryPath (filename r))
                       (create_table_if_not_exists (symbols_table db)) @ new"
    and rows: "list_all (new_row_in env directoryPath
                 (case traverseFiles env directoryPath of
                    Inl e \<Rightarrow> [] | Inr files \<Rightarrow> filter isSourceFile files)) new"
    using buildIndex_symbols [OF assms(1), of env db] assms(4) by auto
  have "filename r \<noteq> []" if "r \<in> set new" for r
  proof (cases "traverseFiles env directoryPath")
    case (Inl e)
    with rows that show ?thesis by (simp add: list_all_iff new_row_in_def)
  next
    case (Inr files)
    with rows that obtain f where "f \<in> set files" "isSourceFile f"
      "filename r = replace f directoryPath"
      by (auto simp: list_all_iff new_row_in_def list_ex_iff)
    with assms(3) [OF Inr] show ?thesis by simp
  qed
  with assms(2) show ?thesis by (auto simp: fs)
qed

subsection \<open>Digests a run leaves unrecorded\<close>

text \<open>
  A table without a row under a digest fails the digest check. A file whose try block
  fails before its first insert leaves \<^verbatim>\<open>symbols\<close> as it was and prints the error and
  the progress line; a file with another digest writes no row under this one. The console
  only grows.
\<close>

lemma no_row_not_known:
  "list_all (\<lambda>r. hash r \<noteq> h) syms \<Longrightarrow> \<not> checkIfFileHashExists syms h"
proof -
  assume "list_all (\<lambda>r. hash r \<noteq> h) syms"
  then have "filter (\<lambda>r. hash r = h) syms = []"
    by (simp add: filter_empty_conv list_all_iff)
  then show ?thesis by (simp add: checkIfFileHashExists_def pluck_get_def truthy_def)
qed

lemma try_block_early_failure:
  assumes "early_failure env code = Some e"
  shows "\<exists>st0. try_block env relativeFile h code st = (Some e, st0)
           \<and> symbols st0 = symbols st \<and> console st0 = console st"
proof (cases "generateMetadata env code")
  case (Inl e')
  with assms show ?thesis by (simp add: early_failure_def try_block_def)
next
  case (Inr units)
  let ?st0 = "if truthy (checkIfFileNameIsKnown (symbols st) relativeFile)
              then delete_embeddings relativeFile st else st"
  from assms Inr obtain u rest where first: "filter (\<lambda>u. \<not> noise (symbolName u)) units = u # rest"
    and fails: "generateEmbedding env (symbolName u @ '' '' @ description u) = Inl e"
    by (auto simp: early_failure_def split: list.splits sum.splits)
  have "u \<in> set (filter (\<lambda>u. \<not> noise (symbolName u)) units)" by (simp add: first)
  then have u: "\<not> noise (symbolName u)" by simp
  have "items_loop env relativeFile h units ?st0
          = items_loop env relativeFile h (filter (\<lambda>u. \<not> noise (symbolName u)) units) ?st0"
    by (intro items_loop_filter [symmetric]) simp
  also have "\<dots> = (Some e, ?st0)" using u fails by (simp add: first)
  finally have "try_block env relativeFile h code st = (Some e, ?st0)"
    using Inr by (simp add: try_block_def)
  moreover have "symbols ?st0 = symbols st" by simp
  moreover have "console ?st0 = console st" by (simp add: delete_embeddings_def)
  ultimately show ?thesis by blast
qed

lemma file_step_early_failure:
  assumes "sha1 env file = Inr h" and "readFile env file = Inr code"
    and "early_failure env code = Some e"
    and "list_all (\<lambda>r. hash r \<noteq> h) (symbols st)"
  shows "\<exists>st1. file_step env directoryPath len progress file st = (None, st1)
           \<and> symbols st1 = symbols st
           \<and> console st1 = console st @ [ConsoleError e, Progress progress len]"
proof -
  obtain st0 where "try_block env (replace file directoryPath) h code st = (Some e, st0)"
    and "symbols st0 = symbols st" and "console st0 = console st"
    using try_block_early_failure [OF assms(3)] by blast
  then show ?thesis
    using assms(1,2) no_row_not_known [OF assms(4)] by (simp add: file_step_def)
qed

lemma file_step_other_digest:
  assumes "sha1 env f \<noteq> Inr h" and "list_all (\<lambda>r. hash r \<noteq> h) (symbols st)"
  shows "list_all (\<lambda>r. hash r \<noteq> h) (symbols (snd (file_step env directoryPath len progress f st)))"
proof -
  obtain new where new: "symbols (snd (file_step env directoryPath len progress f st)) = symbols st @ new"
    and rows: "list_all (new_row_in env directoryPath [f]) new"
    using file_step_symbols by blast
  have "list_all (\<lambda>r. hash r \<noteq> h) new"
    using rows assms(1) by (auto simp: list_all_iff new_row_in_def)
  with assms(2) show ?thesis by (simp add: new)
qed

lemma console_items_loop:
  "prefix (console st) (console (snd (items_loop env relativeFile h items st)))"
proof (induction items arbitrary: st)
  case Nil
  show ?case by simp
next
  case (Cons u rest)
  show ?case
  proof (cases "noise (symbolName u)")
    case True
    with Cons show ?thesis by simp
  next
    case False
    show ?thesis
    proof (cases "generateEmbedding env (symbolName u @ '' '' @ description u)")
      case (Inl e)
      with False show ?thesis by simp
    next
      case (Inr v)
      let ?st2 = "(console_log (CreatingRecord relativeFile (symbolName u)) st)
                    \<lparr>i_counter := i_counter st + 1\<rparr>"
      show ?thesis
      proof (cases "insert_embedding (i_counter st + 1) v ?st2")
        case (Inl e)
        with False Inr show ?thesis by (simp add: Let_def console_log_def)
      next
        case ins: (Inr st3)
        let ?st4 = "insert_symbol (i_counter st + 1) relativeFile h u st3"
        have "console ?st4 = console st @ [CreatingRecord relativeFile (symbolName u)]"
          using ins by (auto simp: insert_embedding_def insert_symbol_def console_log_def
              split: if_splits)
        then have "prefix (console st) (console ?st4)" by simp
        moreover have "prefix (console ?st4)
            (console (snd (items_loop env relativeFile h rest ?st4)))"
          by (rule Cons)
        moreover have "items_loop env relativeFile h (u # rest) st
                     = items_loop env relativeFile h rest ?st4"
          using False Inr ins by (simp add: Let_def console_log_def)
        ultimately show ?thesis by (auto intro: prefix_order.trans)
      qed
    qed
  qed
qed

lemma console_try_block:
  "prefix (console st) (console (snd (try_block env relativeFile h code st)))"
proof (cases "generateMetadata env code")
  case (Inl e)
  then show ?thesis by (simp add: try_block_def)
next
  case (Inr units)
  let ?st0 = "if truthy (checkIfFileNameIsKnown (symbols st) relativeFile)
              then delete_embeddings relativeFile st else st"
  have "console ?st0 = console st" by (simp add: delete_embeddings_def)
  with console_items_loop [of ?st0 env relativeFile h units] Inr
  show ?thesis by (simp add: try_block_def)
qed

lemma console_file_step:
  "prefix (console st) (console (snd (file_step env directoryPath len progress file st)))"
proof (cases "sha1 env file")
  case (Inl e)
  then show ?thesis by (simp add: file_step_def)
next
  case h: (Inr h)
  show ?thesis
  proof (cases "readFile env file")
    case (Inl e)
    with h show ?thesis by (simp add: file_step_def)
  next
    case code: (Inr code)
    show ?thesis
    proof (cases "checkIfFileHashExists (symbols st) h")
      case True
      with h code show ?thesis by (simp add: file_step_def)
    next
      case False
      obtain thrown st1 where tb: "try_block env (replace file directoryPath) h code st = (thrown, st1)"
        by (cases "try_block env (replace file directoryPath) h code st")
      have "prefix (console st) (console st1)"
        using console_try_block [of st env "replace file directoryPath" h code] tb by simp
      with h code False tb show ?thesis
        by (cases thrown) (auto simp: file_step_def)
    qed
  qed
qed

lemma console_update_loop:
  "prefix (console st) (console (snd (update_loop env directoryPath len progress files st)))"
proof (induction files arbitrary: st progress)
  case Nil
  show ?case by simp
next
  case (Cons f files)
  obtain thrown st1 where step: "file_step env directoryPath len (progress + 1) f st = (thrown, st1)"
    by (cases "file_step env directoryPath len (progress + 1) f st")
  have one: "prefix (console st) (console st1)"
    using console_file_step [of st env directoryPath len "progress + 1" f] step by simp
  show ?case
  proof (cases thrown)
    case (Some e)
    with step one show ?thesis by simp
  next
    case None
    have "prefix (console st1)
            (console (snd (update_loop env directoryPath len (progress + 1) files st1)))"
      by (rule Cons)
    with one step None show ?thesis by (auto intro: prefix_order.trans)
  qed
qed

lemma file_step_no_digest_rows:
  assumes "sha1 env file = Inr h" and "readFile env file = Inr code"
    and "early_failure env code = Some e"
    and "sha1 env f = Inr h \<longrightarrow> f = file"
    and "list_all (\<lambda>r. hash r \<noteq> h) (symbols st)"
  shows "list_all (\<lambda>r. hash r \<noteq> h)
           (symbols (snd (file_step env directoryPath len progress f st)))"
proof (cases "sha1 env f = Inr h")
  case True
  with assms(4) have "f = file" by simp
  with file_step_early_failure [OF assms(1-3) assms(5), of directoryPath len progress] assms(5)
  show ?thesis by auto
next
  case False
  then show ?thesis using assms(5) by (rule file_step_other_digest)
qed

lemma update_loop_no_digest_rows:
  assumes "sha1 env file = Inr h" and "readFile env file = Inr code"
    and "early_failure env code = Some e"
    and "\<forall>f\<in>set files. sha1 env f = Inr h \<longrightarrow> f = file"
    and "list_all (\<lambda>r. hash r \<noteq> h) (symbols st)"
  shows "list_all (\<lambda>r. hash r \<noteq> h)
           (symbols (snd (update_loop env directoryPath len progress files st)))"
  using assms(4,5)
proof (induction files arbitrary: st progress)
  case Nil
  then show ?case by simp
next
  case (Cons f files)
  obtain thrown st1 where step: "file_step env directoryPath len (progress + 1) f st = (thrown, st1)"
    by (cases "file_step env directoryPath len (progress + 1) f st")
  have st1: "list_all (\<lambda>r. hash r \<noteq> h) (symbols st1)"
    using file_step_no_digest_rows [OF assms(1-3), of f st directoryPath len "progress + 1"]
      Cons.prems step by simp
  show ?case
  proof (cases thrown)
    case (Some e')
    with step st1 show ?thesis by simp
  next
    case None
    have "list_all (\<lambda>r. hash r \<noteq> h)
            (symbols (snd (update_loop env directoryPath len (progress + 1) files st1)))"
      using Cons.prems st1 by (intro Cons.IH) simp_all
    with step None show ?thesis by simp
  qed
qed

lemma update_loop_records_failure:
  assumes "sha1 env file = Inr h" and "readFile env file = Inr code"
    and "early_failure env code = Some e"
    and "\<forall>f\<in>set (before @ file # after). sha1 env f = Inr h \<longrightarrow> f = file"
    and "list_all (\<lambda>r. hash r \<noteq> h) (symbols st)"
    and "update_loop env directoryPath len progress (before @ file # after) st = (None, st2)"
  shows "sublist [ConsoleError e, Progress (progress + length before + 1) len] (console st2)"
  using assms(4-6)
proof (induction before arbitrary: st progress)
  case Nil
  obtain st1 where step: "file_step env directoryPath len (progress + 1) file st = (None, st1)"
    and out: "console st1 = console st @ [ConsoleError e, Progress (progress + 1) len]"
    using file_step_early_failure [OF assms(1-3) Nil.prems(2), of directoryPath len "progress + 1"]
    by blast
  have rest: "update_loop env directoryPath len (progress + 1) after st1 = (None, st2)"
    using Nil.prems(3) step by simp
  have "prefix (console st1) (console st2)"
    using console_update_loop [of st1 env directoryPath len "progress + 1" after] rest by simp
  then obtain more where "console st2 = console st @ [ConsoleError e, Progress (progress + 1) len] @ more"
    by (auto simp: prefix_def out)
  then show ?case by (auto simp: sublist_def)
next
  case (Cons b before)
  obtain thrown st1 where step: "file_step env directoryPath len (progress + 1) b st = (thrown, st1)"
    by (cases "file_step env directoryPath len (progress + 1) b st")
  have none: "thrown = None" and rest:
    "update_loop env directoryPath len (progress + 1) (before @ file # after) st1 = (None, st2)"
    using Cons.prems(3) step by (cases thrown; simp)+
  have st1: "list_all (\<lambda>r. hash r \<noteq> h) (symbols st1)"
    using file_step_no_digest_rows [OF assms(1-3), of b st directoryPath len "progress + 1"]
      Cons.prems(1,2) step by simp
  have "sublist [ConsoleError e, Progress (progress + 1 + length before + 1) len] (console st2)"
    using Cons.prems(1) st1 rest by (intro Cons.IH) simp_all
  then show ?case by simp
qed

lemma file_step_prints_progress:
  assumes "sha1 env file = Inr h" and "readFile env file = Inr code"
    and "list_all (\<lambda>r. hash r \<noteq> h) (symbols st)"
  shows "\<exists>st1. file_step env directoryPath len progress file st = (None, st1)
           \<and> Progress progress len \<in> set (console st1)"
proof -
  obtain thrown st0 where "try_block env (replace file directoryPath) h code st = (thrown, st0)"
    by (cases "try_block env (replace file directoryPath) h code st")
  then show ?thesis
    using assms(1,2) no_row_not_known [OF assms(3)]
    by (cases thrown) (simp_all add: file_step_def)
qed

lemma update_loop_processes_file:
  assumes "sha1 env file = Inr h" and "readFile env file = Inr code"
    and "\<forall>f\<in>set before. sha1 env f \<noteq> Inr h"
    and "list_all (\<lambda>r. hash r \<noteq> h) (symbols st)"
    and "update_loop env directoryPath len progress (before @ file # after) st = (None, st2)"
  shows "Progress (progress + length before + 1) len \<in> set (console st2)"
  using assms(3-5)
proof (induction before arbitrary: st progress)
  case Nil
  obtain st1 where step: "file_step env directoryPath len (progress + 1) file st = (None, st1)"
    and out: "Progress (progress + 1) len \<in> set (console st1)"
    using file_step_prints_progress [OF assms(1,2) Nil.prems(2), of directoryPath len "progress + 1"]
    by blast
  have rest: "update_loop env directoryPath len (progress + 1) after st1 = (None, st2)"
    using Nil.prems(3) step by simp
  have "prefix (console st1) (console st2)"
    using console_update_loop [of st1 env directoryPath len "progress + 1" after] rest by simp
  with out show ?case by (auto simp: prefix_def)
next
  case (Cons b before)
  obtain thrown st1 where step: "file_step env directoryPath len (progress + 1) b st = (thrown, st1)"
    by (cases "file_step env directoryPath len (progress + 1) b st")
  have none: "thrown = None" and rest:
    "update_loop env directoryPath len (progress + 1) (before @ file # after) st1 = (None, st2)"
    using Cons.prems(3) step by (cases thrown; simp)+
  have "sha1 env b \<noteq> Inr h" using Cons.prems(1) by simp
  then have st1: "list_all (\<lambda>r. hash r \<noteq> h) (symbols st1)"
    using file_step_other_digest [of env b h st directoryPath len "progress + 1"]
      Cons.prems(2) step by simp
  have "Progress (progress + 1 + length before + 1) len \<in> set (console st2)"
    using Cons.prems(1) st1 rest by (intro Cons.IH) simp_all
  then show ?case by simp
qed

text \<open>The update loop of a run, as \<^verbatim>\<open>buildIndex\<close> starts it.\<close>

lemma buildIndex_update_loop:
  assumes "string_includes directoryPath ''x-pack/plugins/security_solution''"
    and "traverseFiles env directoryPath = Inr files"
    and "buildIndex env directoryPath db = (thrown, db1, out)"
  shows "\<exists>st4 st5.
           symbols st4 = filter (\<lambda>r. checkIfFileExistsInTheFilesystem env directoryPath (filename r))
                           (create_table_if_not_exists (symbols_table db))
         \<and> update_loop env directoryPath (length (filter isSourceFile files)) 0
               (filter isSourceFile files) st4 = (thrown, st5)
         \<and> symbols_table db1 = Some (symbols st5) \<and> out = console st5"
proof -
  let ?st0 = "\<lparr>embeddings = create_table_if_not_exists (embeddings_table db),
               symbols = create_table_if_not_exists (symbols_table db),
               console = [], outdated = 0, i_counter = 0\<rparr>"
  let ?st1 = "prune env directoryPath (symbols ?st0) ?st0"
  let ?src = "filter isSourceFile files"
  let ?st4 = "(console_log (SourceFilesCount (length ?src))
                (console_log (FilesCount (length files))
                  (console_log (IndexFilesIn directoryPath)
                    (console_log (VssVersion (vss_version env))
                      (console_log (Cleared (outdated ?st1)) ?st1)))))
              \<lparr>i_counter := Date_now env\<rparr>"
  obtain thrown' st5 where run: "update_loop env directoryPath (length ?src) 0 ?src ?st4
                                    = (thrown', st5)"
    by (cases "update_loop env directoryPath (length ?src) 0 ?src ?st4")
  have "buildIndex env directoryPath db = finish thrown' st5"
    using assms(1,2) run by (simp add: buildIndex_def Let_def)
  with assms(3) have "thrown' = thrown" "symbols_table db1 = Some (symbols st5)" "out = console st5"
    by (auto simp: finish_def)
  moreover have "symbols ?st4 = filter (\<lambda>r. checkIfFileExistsInTheFilesystem env directoryPath (filename r))
                           (create_table_if_not_exists (symbols_table db))"
    using prune_known_symbols [of env directoryPath ?st0] by simp
  ultimately show ?thesis using run by blast
qed

subsection \<open>Consistency of the two tables\<close>

text \<open>
  C1 (the code departs from it): after every completed run of \<^verbatim>\<open>buildIndex\<close>, every
  \<^verbatim>\<open>symbols\<close> row has exactly one \<^verbatim>\<open>embeddings\<close> row under its \<^verbatim>\<open>embedding_id\<close> and every
  \<^verbatim>\<open>embeddings\<close> row is referenced by a \<^verbatim>\<open>symbols\<close> row.
  The first run below indexes one file into an empty database and leaves the tables in
  lockstep. The file is then removed from the tree. The second run completes, deletes the
  file's \<^verbatim>\<open>symbols\<close> row and keeps its vector: the \<^verbatim>\<open>DELETE\<close> on \<^verbatim>\<open>embeddings\<close> selects the
  row number 1 of the \<^verbatim>\<open>symbols\<close> row, not its \<^verbatim>\<open>embedding_id\<close> 1700000000001.
\<close>

theorem orphan_vector_after_pruning_run:
  "buildIndex world_a1 root_dir empty_db =
     (None,
      \<lparr>embeddings_table = Some [(1700000000001, 11)],
       symbols_table = Some
         [\<lparr>rowid = 1, filename = ''/a.ts'', hash = ''H1'',
           metadata = \<lparr>symbolName = ''useA'', line = 3, description = ''hook A''\<rparr>,
           embedding_id = 1700000000001\<rparr>]\<rparr>,
      [Cleared 0, VssVersion ''v0.1.2'',
       IndexFilesIn ''/kibana/x-pack/plugins/security_solution'', FilesCount 1,
       SourceFilesCount 1, CreatingRecord ''/a.ts'' ''useA'', Progress 1 1])
   \<and> lockstep
       \<lparr>embeddings_table = Some [(1700000000001, 11::real)],
        symbols_table = Some
          [\<lparr>rowid = 1, filename = ''/a.ts'', hash = ''H1'',
            metadata = \<lparr>symbolName = ''useA'', line = 3, description = ''hook A''\<rparr>,
            embedding_id = 1700000000001\<rparr>]\<rparr>
   \<and> buildIndex world_a2 root_dir
       \<lparr>embeddings_table = Some [(1700000000001, 11)],
        symbols_table = Some
          [\<lparr>rowid = 1, filename = ''/a.ts'', hash = ''H1'',
            metadata = \<lparr>symbolName = ''useA'', line = 3, description = ''hook A''\<rparr>,
            embedding_id = 1700000000001\<rparr>]\<rparr> =
     (None,
      \<lparr>embeddings_table = Some [(1700000000001, 11)], symbols_table = Some []\<rparr>,
      [Cleared 1, VssVersion ''v0.1.2'',
       IndexFilesIn ''/kibana/x-pack/plugins/security_solution'', FilesCount 0,
       SourceFilesCount 0])
   \<and> \<not> lockstep \<lparr>embeddings_table = Some [(1700000000001, 11::real)],
                   symbols_table = Some []\<rparr>"
  by code_simp

subsection \<open>A changed file\<close>

text \<open>
  C2 (the code departs from it): for a file indexed under digest \<open>H1\<close> whose text now has
  digest \<open>H2\<close>, the run deletes the file's former \<^verbatim>\<open>symbols\<close> rows and their vectors before
  it inserts the new ones, which carry \<open>H2\<close>.
  In the run below the file \<^verbatim>\<open>/b.ts\<close> has two rows under \<open>H1\<close>. The update pass issues no
  \<^verbatim>\<open>DELETE\<close> on \<^verbatim>\<open>symbols\<close>, and its \<^verbatim>\<open>DELETE\<close> on \<^verbatim>\<open>embeddings\<close> selects the row numbers 1 and 2:
  both old rows and both old vectors remain beside the new row under \<open>H2\<close>.
\<close>

theorem changed_file_keeps_old_rows:
  "buildIndex world_b root_dir db_b =
     (None,
      \<lparr>embeddings_table =
         Some [(1700000000001, 14), (1700000000002, 17), (1700000600001, 15)],
       symbols_table = Some
         [\<lparr>rowid = 1, filename = ''/b.ts'', hash = ''H1'',
           metadata = \<lparr>symbolName = ''loadB'', line = 2, description = ''loads B''\<rparr>,
           embedding_id = 1700000000001\<rparr>,
          \<lparr>rowid = 2, filename = ''/b.ts'', hash = ''H1'',
           metadata = \<lparr>symbolName = ''saveB'', line = 9, description = ''saves B''\<rparr>,
           embedding_id = 1700000000002\<rparr>,
          \<lparr>rowid = 3, filename = ''/b.ts'', hash = ''H2'',
           metadata = \<lparr>symbolName = ''storeB'', line = 4, description = ''stores B''\<rparr>,
           embedding_id = 1700000600001\<rparr>]\<rparr>,
      [Cleared 0, VssVersion ''v0.1.2'',
       IndexFilesIn ''/kibana/x-pack/plugins/security_solution'', FilesCount 1,
       SourceFilesCount 1, CreatingRecord ''/b.ts'' ''storeB'', Progress 1 1])"
  by code_simp

subsection \<open>A removed file\<close>

text \<open>
  C3 (the code departs from it): for every file name stored in \<^verbatim>\<open>symbols\<close> whose file is no
  longer in the tree, the run deletes all \<^verbatim>\<open>symbols\<close> rows of that name and all their
  vectors, before the update pass inserts anything.
  In the run below \<^verbatim>\<open>/gone.ts\<close> has left the tree. Its two \<^verbatim>\<open>symbols\<close> rows are deleted, by
  the first loop and so before the update pass; its two vectors 1700000000001 and
  1700000000002 remain, since the \<^verbatim>\<open>DELETE\<close> on \<^verbatim>\<open>embeddings\<close> selects the row numbers 1
  and 2.
\<close>

theorem pruned_file_keeps_vectors:
  "buildIndex world_c root_dir db_c =
     (None,
      \<lparr>embeddings_table =
         Some [(1700000000001, 10), (1700000000002, 20), (1700000000003, 30)],
       symbols_table = Some
         [\<lparr>rowid = 3, filename = ''/kept.ts'', hash = ''K1'',
           metadata = \<lparr>symbolName = ''k1'', line = 1, description = ''kept''\<rparr>,
           embedding_id = 1700000000003\<rparr>]\<rparr>,
      [Cleared 2, VssVersion ''v0.1.2'',
       IndexFilesIn ''/kibana/x-pack/plugins/security_solution'', FilesCount 1,
       SourceFilesCount 1, AlreadyKnown ''/kept.ts''])"
  by code_simp

subsection \<open>A failure of the Embedder\<close>

text \<open>
  C4 as the code has it: when the Embedder fails for a unit of a file, the exception leaves
  the loop over the file's units. Every unit before the failing one that passed the filter
  is persisted: \<open>st1\<close>, the state in which the loop stops, has for each of them, in their
  order, one new \<^verbatim>\<open>symbols\<close> row and one new vector that satisfy \<open>persisted_as\<close>, the
  vectors under distinct numbers, and no other new row. The failing unit and every unit
  after it are not processed, the error is printed, and the run goes on with the next
  file.
\<close>

theorem embedder_failure_stops_file:
  assumes "sha1 env file = Inr h" and "readFile env file = Inr code"
    and "\<not> checkIfFileHashExists (symbols st) h"
    and "generateMetadata env code = Inr (pre @ u # post)"
    and "\<not> noise (symbolName u)"
    and "generateEmbedding env (symbolName u @ '' '' @ description u) = Inl e"
    and "items_loop env (replace file directoryPath) h pre
           (if truthy (checkIfFileNameIsKnown (symbols st) (replace file directoryPath))
            then delete_embeddings (replace file directoryPath) st else st) = (None, st1)"
  shows "file_step env directoryPath len progress file st =
           (None, console_log (Progress progress len) (console_log (ConsoleError e) st1))
         \<and> (\<exists>rows vecs.
               symbols st1 = symbols st @ rows
             \<and> embeddings st1 =
                 embeddings
                   (if truthy (checkIfFileNameIsKnown (symbols st) (replace file directoryPath))
                    then delete_embeddings (replace file directoryPath) st else st) @ vecs
             \<and> length rows = length vecs
             \<and> list_all2
                 (\<lambda>u rp. persisted_as env (replace file directoryPath) h u (fst rp) (snd rp))
                 (filter (\<lambda>u. \<not> noise (symbolName u)) pre) (zip rows vecs)
             \<and> distinct (map fst vecs))"
proof -
  have "try_block env (replace file directoryPath) h code st = (Some e, st1)"
    using assms(4) items_loop_stops_at_failure [OF assms(7) assms(5) assms(6)]
    by (simp add: try_block_def)
  then have "file_step env directoryPath len progress file st =
           (None, console_log (Progress progress len) (console_log (ConsoleError e) st1))"
    using assms(1-3) by (simp add: file_step_def)
  moreover from items_loop_persists [OF assms(7)] obtain rows vecs where
    "symbols st1 = symbols st @ rows"
    "embeddings st1 =
       embeddings (if truthy (checkIfFileNameIsKnown (symbols st) (replace file directoryPath))
                   then delete_embeddings (replace file directoryPath) st else st) @ vecs"
    "length rows = length vecs"
    "list_all2 (\<lambda>u rp. persisted_as env (replace file directoryPath) h u (fst rp) (snd rp))
       (filter (\<lambda>u. \<not> noise (symbolName u)) pre) (zip rows vecs)"
    "distinct (map fst vecs)"
    by (auto split: if_splits)
  ultimately show ?thesis by blast
qed

text \<open>An instance: the second of three units fails, the first is persisted.\<close>

theorem embedder_failure_stops_file_witness:
  "file_step world_d root_dir 2 1 (in_root ''/d.ts'') (start_state 1700000000000) =
     (None,
      \<lparr>embeddings = [(1700000000001, 11)],
       symbols = [\<lparr>rowid = 1, filename = ''/d.ts'', hash = ''HD'',
                   metadata = unit ''alpha'' 1 ''first'', embedding_id = 1700000000001\<rparr>],
       console = [CreatingRecord ''/d.ts'' ''alpha'',
                  ConsoleError (Error ''embeddings request failed''), Progress 1 2],
       outdated = 0, i_counter = 1700000000001\<rparr>)"
proof -
  have digest: "sha1 world_d (in_root ''/d.ts'') = Inr ''HD''" by code_simp
  have content: "readFile world_d (in_root ''/d.ts'') = Inr ''code of d''" by code_simp
  have fresh: "\<not> checkIfFileHashExists (symbols (start_state 1700000000000)) ''HD''"
    by code_simp
  have units: "generateMetadata world_d ''code of d'' =
                 Inr ([unit ''alpha'' 1 ''first''] @ unit ''beta'' 5 ''second''
                        # [unit ''gamma'' 9 ''third''])"
    by code_simp
  have named: "\<not> noise (symbolName (unit ''beta'' 5 ''second''))" by code_simp
  have fails: "generateEmbedding world_d
                 (symbolName (unit ''beta'' 5 ''second'') @ '' ''
                    @ description (unit ''beta'' 5 ''second''))
               = Inl (Error ''embeddings request failed'')"
    by code_simp
  have before: "items_loop world_d (replace (in_root ''/d.ts'') root_dir) ''HD''
                  [unit ''alpha'' 1 ''first'']
                  (if truthy (checkIfFileNameIsKnown (symbols (start_state 1700000000000))
                                (replace (in_root ''/d.ts'') root_dir))
                   then delete_embeddings (replace (in_root ''/d.ts'') root_dir)
                          (start_state 1700000000000)
                   else start_state 1700000000000) =
                (None,
                 \<lparr>embeddings = [(1700000000001, 11)],
                  symbols = [\<lparr>rowid = 1, filename = ''/d.ts'', hash = ''HD'',
                              metadata = unit ''alpha'' 1 ''first'',
                              embedding_id = 1700000000001\<rparr>],
                  console = [CreatingRecord ''/d.ts'' ''alpha''],
                  outdated = 0, i_counter = 1700000000001\<rparr>)"
    by code_simp
  show ?thesis
    using embedder_failure_stops_file
      [OF digest content fresh units named fails before, of 2 1, THEN conjunct1]
    by (simp add: console_log_def)
qed

text \<open>
  C4 as stated fails: in a whole run on the same tree the unit \<^verbatim>\<open>gamma\<close>, a sibling of the
  failing unit \<^verbatim>\<open>beta\<close>, is neither embedded nor persisted, while the next file is indexed.
\<close>

theorem embedder_failure_drops_later_siblings:
  "buildIndex world_d root_dir empty_db =
     (None,
      \<lparr>embeddings_table = Some [(1700000000001, 11), (1700000000002, 16)],
       symbols_table = Some
         [\<lparr>rowid = 1, filename = ''/d.ts'', hash = ''HD'',
           metadata = \<lparr>symbolName = ''alpha'', line = 1, description = ''first''\<rparr>,
           embedding_id = 1700000000001\<rparr>,
          \<lparr>rowid = 2, filename = ''/e.ts'', hash = ''HE'',
           metadata = \<lparr>symbolName = ''delta'', line = 1, description = ''other file''\<rparr>,
           embedding_id = 1700000000002\<rparr>]\<rparr>,
      [Cleared 0, VssVersion ''v0.1.2'',
       IndexFilesIn ''/kibana/x-pack/plugins/security_solution'', FilesCount 2,
       SourceFilesCount 2, CreatingRecord ''/d.ts'' ''alpha'',
       ConsoleError (Error ''embeddings request failed''), Progress 1 2,
       CreatingRecord ''/e.ts'' ''delta'', Progress 2 2])"
  by code_simp

subsection \<open>Files with a recorded failure\<close>

text \<open>
  C5 as the code has it: take a candidate file whose processing fails before any of its
  units is persisted (a Summarizer error, a malformed response, or an Embedder error on
  the first unit that passes the filter), whose digest no row of a file still in the tree
  carries when the run starts (so the file is not skipped), and whose digest no other
  candidate file of the run carries. Then the run persists no \<^verbatim>\<open>symbols\<close> row under the
  file's digest: the table it leaves has no row under it and fails the digest check, so
  the file remains unfingerprinted. A run that completes has printed the error, directly
  followed by the progress line of the file. And the file is processed again on the next
  run: in every next run on the database left behind in which the file is a candidate with
  the same digest and no candidate before it carries that digest, a completed run prints
  the file's progress line, which a skipped file does not get.
\<close>

theorem early_failure_leaves_file_unfingerprinted:
  assumes "string_includes directoryPath ''x-pack/plugins/security_solution''"
    and "traverseFiles env directoryPath = Inr files"
    and "filter isSourceFile files = before @ file # after"
    and "sha1 env file = Inr h" and "readFile env file = Inr code"
    and "early_failure env code = Some e"
    and "\<forall>f\<in>set (filter isSourceFile files). sha1 env f = Inr h \<longrightarrow> f = file"
    and "list_all (\<lambda>r. hash r \<noteq> h)
           (filter (\<lambda>r. checkIfFileExistsInTheFilesystem env directoryPath (filename r))
              (create_table_if_not_exists (symbols_table db)))"
    and "buildIndex env directoryPath db = (thrown, db1, out)"
  shows "(\<exists>fs. symbols_table db1 = Some fs \<and> list_all (\<lambda>r. hash r \<noteq> h) fs
               \<and> \<not> checkIfFileHashExists fs h)
         \<and> (thrown = None \<longrightarrow>
              sublist [ConsoleError e, Progress (length before + 1) (length (before @ file # after))]
                out)
         \<and> (\<forall>env2 files2 before2 after2 code2 db2 out2.
              traverseFiles env2 directoryPath = Inr files2 \<longrightarrow>
              filter isSourceFile files2 = before2 @ file # after2 \<longrightarrow>
              sha1 env2 file = Inr h \<longrightarrow> readFile env2 file = Inr code2 \<longrightarrow>
              (\<forall>f\<in>set before2. sha1 env2 f \<noteq> Inr h) \<longrightarrow>
              buildIndex env2 directoryPath db1 = (None, db2, out2) \<longrightarrow>
              Progress (length before2 + 1) (length (before2 @ file # after2)) \<in> set out2)"
proof -
  obtain st4 st5 where st4: "symbols st4 =
        filter (\<lambda>r. checkIfFileExistsInTheFilesystem env directoryPath (filename r))
          (create_table_if_not_exists (symbols_table db))"
    and loop: "update_loop env directoryPath (length (filter isSourceFile files)) 0
                 (filter isSourceFile files) st4 = (thrown, st5)"
    and db1: "symbols_table db1 = Some (symbols st5)" and out: "out = console st5"
    using buildIndex_update_loop [OF assms(1,2,9)] by blast
  have clean4: "list_all (\<lambda>r. hash r \<noteq> h) (symbols st4)"
    using assms(8) by (simp add: st4)
  have clean5: "list_all (\<lambda>r. hash r \<noteq> h) (symbols st5)"
    using update_loop_no_digest_rows [OF assms(4-7) clean4, of directoryPath
        "length (filter isSourceFile files)" 0] loop by simp
  have first: "\<exists>fs. symbols_table db1 = Some fs \<and> list_all (\<lambda>r. hash r \<noteq> h) fs
               \<and> \<not> checkIfFileHashExists fs h"
    using db1 clean5 no_row_not_known [OF clean5] by simp
  have second: "sublist [ConsoleError e,
                   Progress (length before + 1) (length (before @ file # after))] out"
    if "thrown = None"
  proof -
    have "update_loop env directoryPath (length (before @ file # after)) 0
            (before @ file # after) st4 = (None, st5)"
      using loop that by (simp add: assms(3))
    moreover have "\<forall>f\<in>set (before @ file # after). sha1 env f = Inr h \<longrightarrow> f = file"
      using assms(7) by (simp add: assms(3))
    ultimately have "sublist [ConsoleError e,
        Progress (0 + length before + 1) (length (before @ file # after))] (console st5)"
      using clean4 by (intro update_loop_records_failure [OF assms(4-6)])
    then show ?thesis by (simp add: out)
  qed
  have third: "Progress (length before2 + 1) (length (before2 @ file # after2)) \<in> set out2"
    if t2: "traverseFiles env2 directoryPath = Inr files2"
      and p2: "filter isSourceFile files2 = before2 @ file # after2"
      and d2: "sha1 env2 file = Inr h" and c2: "readFile env2 file = Inr code2"
      and b2: "\<forall>f\<in>set before2. sha1 env2 f \<noteq> Inr h"
      and r2: "buildIndex env2 directoryPath db1 = (None, db2, out2)"
    for env2 :: "'a env" and files2 before2 after2 code2 db2 out2
  proof -
    obtain st6 st7 where st6: "symbols st6 =
        filter (\<lambda>r. checkIfFileExistsInTheFilesystem env2 directoryPath (filename r))
          (create_table_if_not_exists (symbols_table db1))"
      and loop2: "update_loop env2 directoryPath (length (filter isSourceFile files2)) 0
                 (filter isSourceFile files2) st6 = (None, st7)"
      and out2: "out2 = console st7"
      using buildIndex_update_loop [OF assms(1) t2 r2] by blast
    have clean6: "list_all (\<lambda>r. hash r \<noteq> h) (symbols st6)"
      using clean5 by (simp add: st6 db1 create_table_if_not_exists_def list_all_iff)
    have "update_loop env2 directoryPath (length (before2 @ file # after2)) 0
            (before2 @ file # after2) st6 = (None, st7)"
      using loop2 by (simp add: p2)
    then have "Progress (0 + length before2 + 1) (length (before2 @ file # after2))
                 \<in> set (console st7)"
      using b2 clean6 by (intro update_loop_processes_file [OF d2 c2])
    then show ?thesis by (simp add: out2)
  qed
  from first second third show ?thesis by blast
qed

text \<open>
  An instance: the completion for the second of two files has no \<^verbatim>\<open>symbols\<close> array; the
  next run is a run on the same tree.
\<close>

theorem early_failure_leaves_file_unfingerprinted_witness:
  "(\<exists>fs. symbols_table
            (\<lparr>embeddings_table = Some [(1700000000001, 11)],
       symbols_table = Some
         [\<lparr>rowid = 1, filename = ''/n.ts'', hash = ''HN'',
           metadata = \<lparr>symbolName = ''useN'', line = 2, description = ''hook N''\<rparr>,
           embedding_id = 1700000000001\<rparr>]\<rparr> :: real database) = Some fs
         \<and> list_all (\<lambda>r. hash r \<noteq> ''HM'') fs \<and> \<not> checkIfFileHashExists fs ''HM'')
   \<and> sublist [ConsoleError (Error ''could not parse completion response''), Progress 2 2]
       [Cleared 0, VssVersion ''v0.1.2'',
       IndexFilesIn ''/kibana/x-pack/plugins/security_solution'', FilesCount 2,
       SourceFilesCount 2, CreatingRecord ''/n.ts'' ''useN'', Progress 1 2,
       ConsoleError (Error ''could not parse completion response''), Progress 2 2]
   \<and> Progress 2 2 \<in> set
       [Cleared 0, VssVersion ''v0.1.2'',
       IndexFilesIn ''/kibana/x-pack/plugins/security_solution'', FilesCount 2,
       SourceFilesCount 2, AlreadyKnown ''/n.ts'',
       ConsoleError (Error ''could not parse completion response''), Progress 2 2]"
proof -
  have guard: "string_includes root_dir ''x-pack/plugins/security_solution''" by code_simp
  have walk: "traverseFiles world_m root_dir = Inr [in_root ''/n.ts'', in_root ''/m.ts'']"
    by code_simp
  have place: "filter isSourceFile [in_root ''/n.ts'', in_root ''/m.ts'']
                 = [in_root ''/n.ts''] @ in_root ''/m.ts'' # []"
    by code_simp
  have digest: "sha1 world_m (in_root ''/m.ts'') = Inr ''HM''" by code_simp
  have content: "readFile world_m (in_root ''/m.ts'') = Inr ''code of m''" by code_simp
  have failure: "early_failure world_m ''code of m''
                   = Some (Error ''could not parse completion response'')"
    by code_simp
  have other: "sha1 world_m (in_root ''/n.ts'') \<noteq> Inr ''HM''" by code_simp
  have alone: "\<forall>f\<in>set (filter isSourceFile [in_root ''/n.ts'', in_root ''/m.ts'']).
                 sha1 world_m f = Inr ''HM'' \<longrightarrow> f = in_root ''/m.ts''"
    unfolding place using other by simp
  have earlier: "\<forall>f\<in>set [in_root ''/n.ts'']. sha1 world_m f \<noteq> Inr ''HM''"
    using other by simp
  have unrecorded: "list_all (\<lambda>r. hash r \<noteq> ''HM'')
           (filter (\<lambda>r. checkIfFileExistsInTheFilesystem world_m root_dir (filename r))
              (create_table_if_not_exists (symbols_table empty_db)))"
    by code_simp
  have run1: "buildIndex world_m root_dir empty_db =
     (None,
      \<lparr>embeddings_table = Some [(1700000000001, 11)],
       symbols_table = Some
         [\<lparr>rowid = 1, filename = ''/n.ts'', hash = ''HN'',
           metadata = \<lparr>symbolName = ''useN'', line = 2, description = ''hook N''\<rparr>,
           embedding_id = 1700000000001\<rparr>]\<rparr>,
      [Cleared 0, VssVersion ''v0.1.2'',
       IndexFilesIn ''/kibana/x-pack/plugins/security_solution'', FilesCount 2,
       SourceFilesCount 2, CreatingRecord ''/n.ts'' ''useN'', Progress 1 2,
       ConsoleError (Error ''could not parse completion response''), Progress 2 2])"
    by code_simp
  have run2: "buildIndex world_m root_dir
      \<lparr>embeddings_table = Some [(1700000000001, 11)],
       symbols_table = Some
         [\<lparr>rowid = 1, filename = ''/n.ts'', hash = ''HN'',
           metadata = \<lparr>symbolName = ''useN'', line = 2, description = ''hook N''\<rparr>,
           embedding_id = 1700000000001\<rparr>]\<rparr> =
     (None,
      \<lparr>embeddings_table = Some [(1700000000001, 11)],
       symbols_table = Some
         [\<lparr>rowid = 1, filename = ''/n.ts'', hash = ''HN'',
           metadata = \<lparr>symbolName = ''useN'', line = 2, description = ''hook N''\<rparr>,
           embedding_id = 1700000000001\<rparr>]\<rparr>,
      [Cleared 0, VssVersion ''v0.1.2'',
       IndexFilesIn ''/kibana/x-pack/plugins/security_solution'', FilesCount 2,
       SourceFilesCount 2, AlreadyKnown ''/n.ts'',
       ConsoleError (Error ''could not parse completion response''), Progress 2 2])"
    by code_simp
  note run = early_failure_leaves_file_unfingerprinted
      [OF guard walk place digest content failure alone unrecorded run1]
  have again: "Progress (length [in_root ''/n.ts''] + 1)
                 (length ([in_root ''/n.ts''] @ in_root ''/m.ts'' # [])) \<in> set out2"
    if "buildIndex world_m root_dir
          \<lparr>embeddings_table = Some [(1700000000001, 11)],
           symbols_table = Some
             [\<lparr>rowid = 1, filename = ''/n.ts'', hash = ''HN'',
               metadata = \<lparr>symbolName = ''useN'', line = 2, description = ''hook N''\<rparr>,
               embedding_id = 1700000000001\<rparr>]\<rparr> = (None, db2, out2)" for db2 out2
    using run walk place digest content earlier that by blast
  have k: "length [in_root ''/n.ts''] + 1 = (2::nat)" by simp
  have n: "length ([in_root ''/n.ts''] @ in_root ''/m.ts'' # []) = (2::nat)" by simp
  from run have first: "\<exists>fs. symbols_table
            (\<lparr>embeddings_table = Some [(1700000000001, 11)],
       symbols_table = Some
         [\<lparr>rowid = 1, filename = ''/n.ts'', hash = ''HN'',
           metadata = \<lparr>symbolName = ''useN'', line = 2, description = ''hook N''\<rparr>,
           embedding_id = 1700000000001\<rparr>]\<rparr> :: real database) = Some fs
         \<and> list_all (\<lambda>r. hash r \<noteq> ''HM'') fs \<and> \<not> checkIfFileHashExists fs ''HM''"
    by blast
  from run have "sublist [ConsoleError (Error ''could not parse completion response''),
                   Progress (length [in_root ''/n.ts''] + 1)
                     (length ([in_root ''/n.ts''] @ in_root ''/m.ts'' # []))]
       [Cleared 0, VssVersion ''v0.1.2'',
       IndexFilesIn ''/kibana/x-pack/plugins/security_solution'', FilesCount 2,
       SourceFilesCount 2, CreatingRecord ''/n.ts'' ''useN'', Progress 1 2,
       ConsoleError (Error ''could not parse completion response''), Progress 2 2]"
    by blast
  note second = this [unfolded k n]
  note third = again [OF run2, unfolded k n]
  from first second third show ?thesis by (intro conjI)
qed

text \<open>
  C5 as stated fails, in two ways. When the Embedder fails on the second unit of a file,
  the row of the first unit is persisted under the file's new digest although an error
  was printed for the file, and the next run on the same tree skips the file. And when the
  Summarizer fails for a file and another file of the run has the same digest, the row
  written for the other file carries that digest, and the next run skips the failed file.
\<close>

theorem failed_file_is_fingerprinted:
  "buildIndex world_f root_dir empty_db =
     (None,
      \<lparr>embeddings_table = Some [(1700000000001, 9)],
       symbols_table = Some
         [\<lparr>rowid = 1, filename = ''/f.ts'', hash = ''HF'',
           metadata = \<lparr>symbolName = ''first'', line = 1, description = ''one''\<rparr>,
           embedding_id = 1700000000001\<rparr>]\<rparr>,
      [Cleared 0, VssVersion ''v0.1.2'',
       IndexFilesIn ''/kibana/x-pack/plugins/security_solution'', FilesCount 1,
       SourceFilesCount 1, CreatingRecord ''/f.ts'' ''first'',
       ConsoleError (Error ''embeddings request failed''), Progress 1 1])
   \<and> buildIndex world_f root_dir
      \<lparr>embeddings_table = Some [(1700000000001, 9)],
       symbols_table = Some
         [\<lparr>rowid = 1, filename = ''/f.ts'', hash = ''HF'',
           metadata = \<lparr>symbolName = ''first'', line = 1, description = ''one''\<rparr>,
           embedding_id = 1700000000001\<rparr>]\<rparr> =
     (None,
      \<lparr>embeddings_table = Some [(1700000000001, 9)],
       symbols_table = Some
         [\<lparr>rowid = 1, filename = ''/f.ts'', hash = ''HF'',
           metadata = \<lparr>symbolName = ''first'', line = 1, description = ''one''\<rparr>,
           embedding_id = 1700000000001\<rparr>]\<rparr>,
      [Cleared 0, VssVersion ''v0.1.2'',
       IndexFilesIn ''/kibana/x-pack/plugins/security_solution'', FilesCount 1,
       SourceFilesCount 1, AlreadyKnown ''/f.ts''])
   \<and> buildIndex world_s root_dir empty_db =
     (None,
      \<lparr>embeddings_table = Some [(1700000000001, 15)],
       symbols_table = Some
         [\<lparr>rowid = 1, filename = ''/s2.ts'', hash = ''HS'',
           metadata = \<lparr>symbolName = ''two'', line = 1, description = ''second copy''\<rparr>,
           embedding_id = 1700000000001\<rparr>]\<rparr>,
      [Cleared 0, VssVersion ''v0.1.2'',
       IndexFilesIn ''/kibana/x-pack/plugins/security_solution'', FilesCount 2,
       SourceFilesCount 2, ConsoleError (Error ''completion request failed''),
       Progress 1 2, CreatingRecord ''/s2.ts'' ''two'', Progress 2 2])
   \<and> buildIndex world_s root_dir
      \<lparr>embeddings_table = Some [(1700000000001, 15)],
       symbols_table = Some
         [\<lparr>rowid = 1, filename = ''/s2.ts'', hash = ''HS'',
           metadata = \<lparr>symbolName = ''two'', line = 1, description = ''second copy''\<rparr>,
           embedding_id = 1700000000001\<rparr>]\<rparr> =
     (None,
      \<lparr>embeddings_table = Some [(1700000000001, 15)],
       symbols_table = Some
         [\<lparr>rowid = 1, filename = ''/s2.ts'', hash = ''HS'',
           metadata = \<lparr>symbolName = ''two'', line = 1, description = ''second copy''\<rparr>,
           embedding_id = 1700000000001\<rparr>]\<rparr>,
      [Cleared 0, VssVersion ''v0.1.2'',
       IndexFilesIn ''/kibana/x-pack/plugins/security_solution'', FilesCount 2,
       SourceFilesCount 2, AlreadyKnown ''/s1.ts'', AlreadyKnown ''/s2.ts''])"
  by code_simp

subsection \<open>Files whose digest is already recorded\<close>

text \<open>
  C6: for every candidate file whose digest is the digest of some \<^verbatim>\<open>symbols\<close> row,
  whichever file that row belongs to, the step for the file prints that the file is
  already known and changes nothing else: no row is deleted from or inserted into either
  table. Stored file names are never empty; the second hypothesis on the table says so.
\<close>

theorem known_hash_skips_file:
  assumes "sha1 env file = Inr h" and "readFile env file = Inr code"
    and "\<exists>r\<in>set (symbols st). hash r = h"
    and "\<forall>r\<in>set (symbols st). filename r \<noteq> []"
  shows "file_step env directoryPath len progress file st =
           (None, st\<lparr>console := console st @ [AlreadyKnown (replace file directoryPath)]\<rparr>)"
  using assms by (simp add: file_step_def checkIfFileHashExists_iff console_log_def)

text \<open>An instance: a copy of a file that is indexed under another name.\<close>

theorem known_hash_skips_file_witness:
  "file_step world_h root_dir 2 2 (in_root ''/copy.ts'') state_h =
     (None, state_h\<lparr>console := [AlreadyKnown ''/copy.ts'']\<rparr>)"
proof -
  have digest: "sha1 world_h (in_root ''/copy.ts'') = Inr ''HX''" by code_simp
  have content: "readFile world_h (in_root ''/copy.ts'') = Inr ''same text''" by code_simp
  have row: "\<exists>r\<in>set (symbols state_h). hash r = ''HX''" by (simp add: state_h_def)
  have names: "\<forall>r\<in>set (symbols state_h). filename r \<noteq> []" by (simp add: state_h_def)
  have rel: "replace (in_root ''/copy.ts'') root_dir = ''/copy.ts''" by code_simp
  have "console state_h = []" by (simp add: state_h_def)
  with known_hash_skips_file [OF digest content row names, of root_dir 2 2] rel
  show ?thesis by simp
qed

subsection \<open>The query\<close>

text \<open>
  C7 as the code has it: \<^verbatim>\<open>runQuery\<close> takes the query text only; the bound 20 is a constant
  of the SQL statement. Its rows are ordered ascending by distance, and there are at most
  20 of them when no two \<^verbatim>\<open>symbols\<close> rows share an \<^verbatim>\<open>embedding_id\<close>.
\<close>

theorem runQuery_sorted_bounded:
  assumes "runQuery env db query = Inr rows"
  shows "sorted (map distance rows)
         \<and> (\<forall>fs. symbols_table db = Some fs \<longrightarrow> distinct (map embedding_id fs)
                \<longrightarrow> length rows \<le> 20)"
proof -
  from assms obtain q es fs where q: "generateEmbedding env query = Inr q"
    and es: "embeddings_table db = Some es" and fs: "symbols_table db = Some fs"
    and rows: "rows = sort_key distance (join_symbols (take 20 (vss_search env es q)) fs)"
    by (auto simp: runQuery_def split: sum.splits option.splits if_splits)
  have "sorted (map distance rows)" by (simp add: rows)
  moreover have "length rows \<le> 20" if "distinct (map embedding_id fs)"
  proof -
    have "length rows \<le> length (take 20 (vss_search env es q))"
      unfolding rows length_sort using that by (rule length_join_symbols)
    then show ?thesis by simp
  qed
  ultimately show ?thesis using fs by simp
qed

text \<open>An instance: the three stored vectors at distances 0.1, 0.5 and 0.9.\<close>

theorem runQuery_sorted_bounded_witness:
  "sorted (map distance
     [\<lparr>e_rowid = 12, distance = 0.1, f_filename = ''/q.ts'',
       f_metadata = unit ''near'' 2 ''near''\<rparr>,
      \<lparr>e_rowid = 13, distance = 0.5, f_filename = ''/q.ts'',
       f_metadata = unit ''mid'' 3 ''mid''\<rparr>,
      \<lparr>e_rowid = 11, distance = 0.9, f_filename = ''/q.ts'',
       f_metadata = unit ''far'' 1 ''far''\<rparr>])
   \<and> length
     [\<lparr>e_rowid = 12, distance = 0.1, f_filename = ''/q.ts'',
       f_metadata = unit ''near'' 2 ''near''\<rparr>,
      \<lparr>e_rowid = 13, distance = 0.5, f_filename = ''/q.ts'',
       f_metadata = unit ''mid'' 3 ''mid''\<rparr>,
      \<lparr>e_rowid = 11, distance = 0.9, f_filename = ''/q.ts'',
       f_metadata = unit ''far'' 1 ''far''\<rparr>] \<le> 20"
proof -
  let ?rows = "[\<lparr>e_rowid = 12, distance = 0.1, f_filename = ''/q.ts'',
                 f_metadata = unit ''near'' 2 ''near''\<rparr>,
                \<lparr>e_rowid = 13, distance = 0.5, f_filename = ''/q.ts'',
                 f_metadata = unit ''mid'' 3 ''mid''\<rparr>,
                \<lparr>e_rowid = 11, distance = 0.9, f_filename = ''/q.ts'',
                 f_metadata = unit ''far'' 1 ''far''\<rparr>]"
  have run: "runQuery world_q db_q ''pagination hook'' = Inr ?rows" by code_simp
  obtain fs where fs: "symbols_table db_q = Some fs" and ids: "distinct (map embedding_id fs)"
    by (simp add: db_q_def)
  from runQuery_sorted_bounded [OF run] fs ids show ?thesis by blast
qed

text \<open>
  C7 as stated fails: with stored vectors at distances 0.1, 0.5 and 0.9 from the query
  vector, \<^verbatim>\<open>runQuery\<close> returns three rows, not the two closest; no argument sets a bound
  of 2.
\<close>

theorem runQuery_returns_all_three:
  "runQuery world_q db_q ''pagination hook'' =
     Inr [\<lparr>e_rowid = 12, distance = 0.1, f_filename = ''/q.ts'',
           f_metadata = \<lparr>symbolName = ''near'', line = 2, description = ''near''\<rparr>\<rparr>,
          \<lparr>e_rowid = 13, distance = 0.5, f_filename = ''/q.ts'',
           f_metadata = \<lparr>symbolName = ''mid'', line = 3, description = ''mid''\<rparr>\<rparr>,
          \<lparr>e_rowid = 11, distance = 0.9, f_filename = ''/q.ts'',
           f_metadata = \<lparr>symbolName = ''far'', line = 1, description = ''far''\<rparr>\<rparr>]"
  by code_simp

subsection \<open>Units named after a keyword\<close>

text \<open>
  C8: a unit whose \<^verbatim>\<open>symbolName\<close> is exactly \<^verbatim>\<open>export\<close> is never persisted. Processing a
  Summarizer result gives the same tables, counter, console and error as processing the
  result with every such unit removed: no \<^verbatim>\<open>symbols\<close> row and no \<^verbatim>\<open>embeddings\<close> row is
  inserted for it.
\<close>

theorem export_unit_never_persisted:
  "items_loop env relativeFile h items st =
     items_loop env relativeFile h (filter (\<lambda>u. symbolName u \<noteq> ''export'') items) st"
proof -
  have "noise ''export''" by code_simp
  then show ?thesis by (intro items_loop_filter [symmetric]) simp
qed

text \<open>An instance: of a unit named \<^verbatim>\<open>export\<close> and a unit named \<^verbatim>\<open>useA\<close> only the second is persisted.\<close>

theorem export_unit_never_persisted_witness:
  "items_loop world_a1 ''/a.ts'' ''H1''
     [unit ''export'' 1 ''the export keyword'', unit ''useA'' 3 ''hook A'']
     (start_state 1700000000000) =
   (None,
    \<lparr>embeddings = [(1700000000001, 11)],
     symbols = [\<lparr>rowid = 1, filename = ''/a.ts'', hash = ''H1'',
                 metadata = unit ''useA'' 3 ''hook A'', embedding_id = 1700000000001\<rparr>],
     console = [CreatingRecord ''/a.ts'' ''useA''], outdated = 0,
     i_counter = 1700000000001\<rparr>)"
proof -
  have "items_loop world_a1 ''/a.ts'' ''H1''
          (filter (\<lambda>u. symbolName u \<noteq> ''export'')
             [unit ''export'' 1 ''the export keyword'', unit ''useA'' 3 ''hook A''])
          (start_state 1700000000000) =
        (None,
         \<lparr>embeddings = [(1700000000001, 11)],
          symbols = [\<lparr>rowid = 1, filename = ''/a.ts'', hash = ''H1'',
                      metadata = unit ''useA'' 3 ''hook A'', embedding_id = 1700000000001\<rparr>],
          console = [CreatingRecord ''/a.ts'' ''useA''], outdated = 0,
          i_counter = 1700000000001\<rparr>)"
    by code_simp
  then show ?thesis
    using export_unit_never_persisted
      [of world_a1 "''/a.ts''" "''H1''"
          "[unit ''export'' 1 ''the export keyword'', unit ''useA'' 3 ''hook A'']"
          "start_state 1700000000000"]
    by simp
qed

text \<open>
  C10 as the code has it: the filter is a case-sensitive substring test. Every unit whose
  \<^verbatim>\<open>symbolName\<close> has \<^verbatim>\<open>export\<close>, \<^verbatim>\<open>import\<close> or \<^verbatim>\<open>interface\<close> as a contiguous part, in these
  letters, is discarded: processing a Summarizer result gives the same outcome as
  processing it with all such units removed.
\<close>

theorem noise_filter_is_substring_test:
  "items_loop env relativeFile h items st =
     items_loop env relativeFile h
       (filter (\<lambda>u. \<not> (sublist ''export'' (symbolName u) \<or> sublist ''import'' (symbolName u)
                        \<or> sublist ''interface'' (symbolName u))) items) st"
  by (intro items_loop_filter [symmetric]) (simp add: noise_sublist)

text \<open>
  An instance: \<^verbatim>\<open>exportItems\<close>, \<^verbatim>\<open>myinterfaceImpl\<close> and \<^verbatim>\<open>reimportAll\<close> are discarded,
  \<^verbatim>\<open>load\<close> is persisted.
\<close>

theorem noise_filter_is_substring_test_witness:
  "items_loop world_g ''/g.ts'' ''HG''
     [unit ''exportItems'' 9 ''exports'', unit ''myinterfaceImpl'' 7 ''implements it'',
      unit ''reimportAll'' 12 ''imports'', unit ''load'' 20 ''loads'']
     (start_state 1700000000000) =
   (None,
    \<lparr>embeddings = [(1700000000001, 10)],
     symbols = [\<lparr>rowid = 1, filename = ''/g.ts'', hash = ''HG'',
                 metadata = unit ''load'' 20 ''loads'', embedding_id = 1700000000001\<rparr>],
     console = [CreatingRecord ''/g.ts'' ''load''], outdated = 0,
     i_counter = 1700000000001\<rparr>)"
proof -
  have "items_loop world_g ''/g.ts'' ''HG''
          (filter (\<lambda>u. \<not> (sublist ''export'' (symbolName u) \<or> sublist ''import'' (symbolName u)
                        \<or> sublist ''interface'' (symbolName u)))
             [unit ''exportItems'' 9 ''exports'', unit ''myinterfaceImpl'' 7 ''implements it'',
              unit ''reimportAll'' 12 ''imports'', unit ''load'' 20 ''loads''])
          (start_state 1700000000000) =
        (None,
         \<lparr>embeddings = [(1700000000001, 10)],
          symbols = [\<lparr>rowid = 1, filename = ''/g.ts'', hash = ''HG'',
                      metadata = unit ''load'' 20 ''loads'', embedding_id = 1700000000001\<rparr>],
          console = [CreatingRecord ''/g.ts'' ''load''], outdated = 0,
          i_counter = 1700000000001\<rparr>)"
    by code_simp
  then show ?thesis
    using noise_filter_is_substring_test
      [of world_g "''/g.ts''" "''HG''"
          "[unit ''exportItems'' 9 ''exports'', unit ''myinterfaceImpl'' 7 ''implements it'',
            unit ''reimportAll'' 12 ''imports'', unit ''load'' 20 ''loads'']"
          "start_state 1700000000000"]
    by simp
qed

text \<open>
  C10 as stated fails on its own example: \<^verbatim>\<open>MyInterfaceImpl\<close> has \<^verbatim>\<open>Interface\<close> with a capital
  letter and none of the three strings, so the unit is embedded and persisted, while
  \<^verbatim>\<open>exportItems\<close> of the same file is discarded.
\<close>

theorem MyInterfaceImpl_is_persisted:
  "buildIndex world_g root_dir empty_db =
     (None,
      \<lparr>embeddings_table = Some [(1700000000001, 29)],
       symbols_table = Some
         [\<lparr>rowid = 1, filename = ''/g.ts'', hash = ''HG'',
           metadata = \<lparr>symbolName = ''MyInterfaceImpl'', line = 7,
                       description = ''implements it''\<rparr>,
           embedding_id = 1700000000001\<rparr>]\<rparr>,
      [Cleared 0, VssVersion ''v0.1.2'',
       IndexFilesIn ''/kibana/x-pack/plugins/security_solution'', FilesCount 1,
       SourceFilesCount 1, CreatingRecord ''/g.ts'' ''MyInterfaceImpl'', Progress 1 1])"
  by code_simp

end
